theory Spec2Isabelle
  imports Complex_Main
begin

section \<open>Data model of the viewer (ngtools/viewer.py)\<close>

text \<open>
  Exceptions are values. Every \<^verbatim>\<open>raise\<close> of the source, and every failing Python
  operation the source relies on (a missing dictionary key, a missing attribute, an index
  out of range, a wrongly typed operand, a matrix that \<^verbatim>\<open>np.linalg.inv\<close> refuses,
  a failing file or network access), is one constructor.
\<close>

datatype error =
  ValueError | KeyError | TypeError | AttributeError | IndexError | LinAlgError | OSError

text \<open>
  Matrices are lists of rows. The entries are \<^verbatim>\<open>float64\<close> in the source; the model keeps
  exact rationals. Shapes and reshaping do not depend on the entries.
\<close>

type_synonym matrix = "rat list list"

record CoordinateSpace =
  names :: "string list"
  units :: "string list"
  scales :: "rat list"

record CoordinateSpaceTransform =
  matrix :: "matrix option"
  inputDimensions :: "CoordinateSpace option"
  outputDimensions :: CoordinateSpace

text \<open>
  A data source of a layer. The source code probes it with \<^verbatim>\<open>getattr(source, 'transform', None)\<close>,
  \<^verbatim>\<open>getattr(source, 'dimensions', None)\<close> and \<^verbatim>\<open>isinstance(source, ng.LocalVolume)\<close>;
  a missing attribute and the value \<^verbatim>\<open>None\<close> are both \<open>None\<close> here. The description that
  \<^verbatim>\<open>RemoteSource.from_filename\<close> returns is probed in the same way and has the same type.
  The sources that a transaction finds in the layers of the state are \<^verbatim>\<open>LayerDataSource\<close>
  objects: they are no \<^verbatim>\<open>LocalVolume\<close> and have no attribute \<^verbatim>\<open>dimensions\<close>, so their
  native dimensions come from the description provider.
\<close>

record LayerDataSource =
  is_local :: bool
  url :: string
  transform :: "CoordinateSpaceTransform option"
  dimensions :: "CoordinateSpace option"

record ManagedLayer =
  name :: string
  is_image :: bool
  source :: "LayerDataSource list"
  shader :: "string option"

datatype LayoutNode =
  LeafView string
| LayerGroupViewer "string list" LayoutNode rat
| StackLayout string "LayoutNode list"

record ViewerState =
  layers :: "ManagedLayer list"
  layout :: LayoutNode
  displayDimensions :: "string list option"

text \<open>
  The object \<^verbatim>\<open>LocalNeuroglancer\<close>: the state held by the remote viewer, the display order
  cached in \<^verbatim>\<open>self.display_dimensions\<close>, and the sequence of states that have been committed
  to the viewer so far (oldest first), which records every transaction that completed.
\<close>

record LocalNeuroglancer =
  viewer :: ViewerState
  display_dimensions :: "string list option"
  committed :: "ViewerState list"

text \<open>
  A numpy array: its shape and its entries in row-major order.
\<close>

record ndarray =
  shape :: "nat list"
  flat :: "rat list"

text \<open>
  What the module takes from outside \<^verbatim>\<open>viewer.py\<close>, as parameters of the model: the alias
  table \<^verbatim>\<open>letter2full\<close>, the table \<^verbatim>\<open>neurotransforms\<close> and the function \<^verbatim>\<open>compose\<close> of
  \<^verbatim>\<open>ngtools.spaces\<close>, the description provider \<^verbatim>\<open>RemoteSource.from_filename\<close>, the
  reader of transform files \<^verbatim>\<open>load_affine\<close> (with its \<^verbatim>\<open>moving\<close> and \<^verbatim>\<open>fixed\<close>
  arguments), and \<^verbatim>\<open>np.linalg.inv\<close>. Each of the functions may raise. The inversion of
  numpy works in floating point: it raises \<^verbatim>\<open>LinAlgError\<close> when its elimination meets a
  pivot that is exactly zero, which happens for some singular matrices and not for others,
  so the model does not compute it.
\<close>

record externals =
  letter2full :: "string \<rightharpoonup> string"
  neurotransforms :: "string \<times> string \<rightharpoonup> CoordinateSpaceTransform"
  compose :: "CoordinateSpaceTransform \<Rightarrow> CoordinateSpaceTransform
                \<Rightarrow> error + CoordinateSpaceTransform"
  from_filename :: "string \<Rightarrow> error + LayerDataSource"
  load_affine :: "string \<Rightarrow> string option \<Rightarrow> string option \<Rightarrow> error + ndarray"
  linalg_inv :: "ndarray \<Rightarrow> error + ndarray"

type_synonym 'a action = "LocalNeuroglancer \<Rightarrow> (error + 'a) \<times> LocalNeuroglancer"

text \<open>
  Modelled from the spec: the state store of the viewer (\<^verbatim>\<open>self.viewer.txn()\<close>) is not in
  the source file. A transaction hands a snapshot of the state to its body and commits the
  state the body leaves; when the body raises, nothing is committed and the error goes on
  to the caller.
\<close>

definition txn :: "(ViewerState \<Rightarrow> error + 'a \<times> ViewerState) \<Rightarrow> 'a action" where
  "txn body self =
     (case body (viewer self) of
        Inl e \<Rightarrow> (Inl e, self)
      | Inr (r, st) \<Rightarrow> (Inr r, self\<lparr>viewer := st, committed := committed self @ [st]\<rparr>))"

text \<open>A \<^verbatim>\<open>for\<close> loop that updates each element in turn and stops at the first exception.\<close>

fun mapM :: "('a \<Rightarrow> error + 'b) \<Rightarrow> 'a list \<Rightarrow> error + 'b list" where
  "mapM f [] = Inr []"
| "mapM f (x # xs) =
     (case f x of
        Inl e \<Rightarrow> Inl e
      | Inr y \<Rightarrow> (case mapM f xs of Inl e \<Rightarrow> Inl e | Inr ys \<Rightarrow> Inr (y # ys)))"

section \<open>Matrices and composition of transforms\<close>

definition eye :: "nat \<Rightarrow> nat \<Rightarrow> matrix" where
  "eye r c = map (\<lambda>i. map (\<lambda>j. if i = j then 1 else 0) [0..<c]) [0..<r]"

definition ncols :: "matrix \<Rightarrow> nat" where
  "ncols m = (case m of [] \<Rightarrow> 0 | r # _ \<Rightarrow> length r)"

definition is_square :: "matrix \<Rightarrow> bool" where
  "is_square m = list_all (\<lambda>r. length r = length m) m"

text \<open>
  Modelled from the spec: the homogeneous-augmented form of a matrix, which \<^verbatim>\<open>compose\<close>
  multiplies with. The helpers of \<^verbatim>\<open>ngtools.spaces\<close> are not in the source file. A matrix
  that is not square gets the homogeneous bottom row \<open>[0, \<dots>, 0, 1]\<close> appended.
\<close>

definition augment :: "matrix \<Rightarrow> matrix" where
  "augment m = (if is_square m then m else m @ [replicate (ncols m - 1) 0 @ [1]])"

text \<open>The matrix product of numpy; operands whose inner sizes differ raise \<^verbatim>\<open>ValueError\<close>.\<close>

definition matmul :: "matrix \<Rightarrow> matrix \<Rightarrow> error + matrix" where
  "matmul a b =
     (if list_all (\<lambda>r. length r = length b) a \<and> list_all (\<lambda>r. length r = ncols b) b
      then Inr (map (\<lambda>r. map (\<lambda>j. sum_list (map (\<lambda>k. r ! k * (b ! k) ! j) [0..<length b]))
                               [0..<ncols b]) a)
      else Inl ValueError)"

text \<open>
  Modelled from the spec: \<^verbatim>\<open>compose\<close> of \<^verbatim>\<open>ngtools.spaces\<close> is not in the source file;
  \<open>compose_spec\<close> is what the spec says of it, and the instance of the parameter
  \<open>compose\<close> that the examples use. The matrix of the result is the matrix of the new
  transform times the homogeneous (squared) matrix of the existing one, the output
  dimensions are those of the new transform and the input dimensions those of the existing
  one. A transform without a matrix is the identity over its declared space.
\<close>

definition matrix_of :: "CoordinateSpaceTransform \<Rightarrow> matrix" where
  "matrix_of t =
     (case matrix t of
        Some m \<Rightarrow> m
      | None \<Rightarrow> (let n = length (names (outputDimensions t)) in eye n (Suc n)))"

definition compose_spec :: "CoordinateSpaceTransform \<Rightarrow> CoordinateSpaceTransform
    \<Rightarrow> error + CoordinateSpaceTransform" where
  "compose_spec tnew texisting =
     (case matmul (matrix_of tnew) (augment (matrix_of texisting)) of
        Inl e \<Rightarrow> Inl e
      | Inr m \<Rightarrow> Inr \<lparr>matrix = Some m,
                     inputDimensions = inputDimensions texisting,
                     outputDimensions = outputDimensions tnew\<rparr>)"

section \<open>The display action\<close>

text \<open>\<^verbatim>\<open>str.lower\<close> on the ASCII letters.\<close>

definition lower_char :: "char \<Rightarrow> char" where
  "lower_char c =
     (case map_of (zip ''ABCDEFGHIJKLMNOPQRSTUVWXYZ'' ''abcdefghijklmnopqrstuvwxyz'') c of
        Some d \<Rightarrow> d
      | None \<Rightarrow> c)"

definition lower :: "string \<Rightarrow> string" where
  "lower s = map lower_char s"

text \<open>
  The argument \<^verbatim>\<open>dimension\<close> of \<^verbatim>\<open>display\<close> is \<^verbatim>\<open>None\<close>, one string or a list of strings,
  and so are the arguments \<^verbatim>\<open>layer\<close> of \<^verbatim>\<open>unload\<close> and \<^verbatim>\<open>filename\<close> of \<^verbatim>\<open>load\<close>.
  \<open>ensure_list\<close> is \<^verbatim>\<open>ensure_list(x or [])\<close>: an empty string and an empty list are
  falsy.
\<close>

datatype str_arg = DNone | DStr string | DList "string list"

fun ensure_list :: "str_arg \<Rightarrow> string list" where
  "ensure_list DNone = []"
| "ensure_list (DStr s) = (if s = [] then [] else [s])"
| "ensure_list (DList l) = l"

text \<open>\<^verbatim>\<open>letter2full.get(letter.lower(), letter)\<close>\<close>

definition resolve_letter :: "externals \<Rightarrow> string \<Rightarrow> string" where
  "resolve_letter ext letter =
     (case letter2full ext (lower letter) of Some full \<Rightarrow> full | None \<Rightarrow> letter)"

text \<open>
  Lines 300 to 308 of \<^verbatim>\<open>display\<close>: a single token is expanded letter by letter, the number
  of tokens is checked, each token is resolved and the result is stored in
  \<^verbatim>\<open>self.display_dimensions\<close>.
\<close>

definition expand_single :: "string list \<Rightarrow> string list" where
  "expand_single ds = (if length ds = 1 then map (\<lambda>c. [c]) (hd ds) else ds)"

definition store_dimensions :: "externals \<Rightarrow> str_arg \<Rightarrow> LocalNeuroglancer
    \<Rightarrow> error + LocalNeuroglancer" where
  "store_dimensions ext dimension self =
     (let dimensions = ensure_list dimension in
      if dimensions \<noteq> [] then
        (let dimensions1 = expand_single dimensions
         in if length dimensions1 \<noteq> 3 then Inl ValueError
            else Inr (self\<lparr>display_dimensions := Some (map (resolve_letter ext) dimensions1)\<rparr>))
      else Inr self)"

text \<open>
  \<^verbatim>\<open>compactNames\<close>: the lower-cased first letter of each name, without the letters
  \<open>c\<close> and \<open>t\<close>. \<^verbatim>\<open>x[0]\<close> raises on an empty name, and iterating over \<^verbatim>\<open>None\<close> raises.
\<close>

definition compactNames :: "string list \<Rightarrow> error + string" where
  "compactNames nms =
     (if list_all (\<lambda>x. x \<noteq> []) nms
      then Inr (filter (\<lambda>d. d \<notin> set ''ct'') (map (\<lambda>x. lower_char (hd x)) nms))
      else Inl IndexError)"

definition compactNames_opt :: "string list option \<Rightarrow> error + string" where
  "compactNames_opt nms = (case nms of None \<Rightarrow> Inl TypeError | Some l \<Rightarrow> compactNames l)"

text \<open>
  \<^verbatim>\<open>getDimensions(source, _reentrant)\<close>, together with the list of the URLs for which it
  asked the description provider. The recursive call is made with \<^verbatim>\<open>_reentrant=True\<close>.
\<close>

definition own_dimensions :: "LayerDataSource \<Rightarrow> CoordinateSpace option" where
  "own_dimensions src =
     (case (case transform src of Some t \<Rightarrow> inputDimensions t | None \<Rightarrow> None) of
        Some d \<Rightarrow> Some d
      | None \<Rightarrow> dimensions src)"

function getDimensions_traced :: "externals \<Rightarrow> LayerDataSource \<Rightarrow> bool
    \<Rightarrow> string list \<times> (error + CoordinateSpace option)" where
  "getDimensions_traced ext src reentrant =
     (case (case transform src of Some t \<Rightarrow> inputDimensions t | None \<Rightarrow> None) of
        Some d \<Rightarrow> ([], Inr (Some d))
      | None \<Rightarrow>
          (case dimensions src of
             Some d \<Rightarrow> ([], Inr (Some d))
           | None \<Rightarrow>
               if \<not> reentrant \<and> \<not> is_local src then
                 (case from_filename ext (url src) of
                    Inl e \<Rightarrow> ([url src], Inl e)
                  | Inr mysource \<Rightarrow>
                      (let (asked, r) = getDimensions_traced ext mysource True
                       in (url src # asked, r)))
               else ([], Inr None)))"
  by pat_completeness auto
termination
  by (relation "measure (\<lambda>(ext, src, reentrant). if reentrant then 0 else 1)") auto

definition getDimensions :: "externals \<Rightarrow> LayerDataSource \<Rightarrow> bool
    \<Rightarrow> error + CoordinateSpace option" where
  "getDimensions ext src reentrant = snd (getDimensions_traced ext src reentrant)"

definition getTransform :: "externals \<Rightarrow> LayerDataSource
    \<Rightarrow> error + CoordinateSpaceTransform option" where
  "getTransform ext src =
     (case transform src of
        Some t \<Rightarrow> Inr (Some t)
      | None \<Rightarrow>
          if \<not> is_local src then
            (case from_filename ext (url src) of
               Inl e \<Rightarrow> Inl e
             | Inr mysource \<Rightarrow> Inr (transform mysource))
          else Inr None)"

text \<open>
  \<^verbatim>\<open>all(name in onames for name in names)\<close>: both are strings, so this asks whether every
  letter of \<open>nms\<close> occurs in \<open>onames\<close>.
\<close>

definition all_in :: "string \<Rightarrow> string \<Rightarrow> bool" where
  "all_in nms onames = list_all (\<lambda>c. c \<in> set onames) nms"

text \<open>
  The two reorientation helpers return the Boolean of the source code (which the caller
  ignores) and the data source as they leave it.
\<close>

definition reorientUsingTransform :: "externals \<Rightarrow> string \<Rightarrow> LayerDataSource
    \<Rightarrow> error + bool \<times> LayerDataSource" where
  "reorientUsingTransform ext nms src =
     (case getTransform ext src of
        Inl e \<Rightarrow> Inl e
      | Inr None \<Rightarrow> Inl AttributeError
      | Inr (Some t) \<Rightarrow>
          (case getDimensions ext src False of
             Inl e \<Rightarrow> Inl e
           | Inr idims \<Rightarrow>
               (let m = (case matrix t of None \<Rightarrow> eye 4 4 | Some m0 \<Rightarrow> m0);
                    odims = outputDimensions t
                in case compactNames (names odims) of
                     Inl e \<Rightarrow> Inl e
                   | Inr onames \<Rightarrow>
                       if all_in nms onames then Inr (False, src)
                       else
                         (let T0 = \<lparr>matrix = Some m, inputDimensions = idims,
                                   outputDimensions = odims\<rparr>
                          in case neurotransforms ext (onames, nms) of
                               None \<Rightarrow> Inl KeyError
                             | Some T \<Rightarrow>
                                 (case compose ext T T0 of
                                    Inl e \<Rightarrow> Inl e
                                  | Inr c \<Rightarrow> Inr (True, src\<lparr>transform := Some c\<rparr>))))))"

definition reorientUsingDimensions :: "externals \<Rightarrow> string \<Rightarrow> LayerDataSource
    \<Rightarrow> error + bool \<times> LayerDataSource" where
  "reorientUsingDimensions ext nms src =
     (case getDimensions ext src False of
        Inl e \<Rightarrow> Inl e
      | Inr None \<Rightarrow> Inr (False, src)
      | Inr (Some idims) \<Rightarrow>
          (case compactNames (names idims) of
             Inl e \<Rightarrow> Inl e
           | Inr inames \<Rightarrow>
               if all_in nms inames then Inr (True, src)
               else
                 (let T0 = \<lparr>matrix = None, inputDimensions = Some idims,
                           outputDimensions = idims\<rparr>
                  in case neurotransforms ext (inames, nms) of
                       None \<Rightarrow> Inl KeyError
                     | Some T \<Rightarrow>
                         (case compose ext T T0 of
                            Inl e \<Rightarrow> Inl e
                          | Inr c \<Rightarrow> Inr (True, src\<lparr>transform := Some c\<rparr>)))))"

text \<open>The body of the loop over the sources of an image layer (lines 377 to 381).\<close>

definition reorient_source :: "externals \<Rightarrow> string \<Rightarrow> LayerDataSource
    \<Rightarrow> error + LayerDataSource" where
  "reorient_source ext nms src =
     (case getTransform ext src of
        Inl e \<Rightarrow> Inl e
      | Inr (Some t) \<Rightarrow>
          (case reorientUsingTransform ext nms src of Inl e \<Rightarrow> Inl e | Inr (b, s) \<Rightarrow> Inr s)
      | Inr None \<Rightarrow>
          (case reorientUsingDimensions ext nms src of Inl e \<Rightarrow> Inl e | Inr (b, s) \<Rightarrow> Inr s))"

definition reorient_layer :: "externals \<Rightarrow> string \<Rightarrow> ManagedLayer \<Rightarrow> error + ManagedLayer" where
  "reorient_layer ext nms l =
     (if is_image l then
        (case mapM (reorient_source ext nms) (source l) of
           Inl e \<Rightarrow> Inl e
         | Inr ss \<Rightarrow> Inr (l\<lparr>source := ss\<rparr>))
      else Inr l)"

text \<open>The body of the transaction of \<^verbatim>\<open>display\<close> (lines 373 to 381).\<close>

definition reorient_state :: "externals \<Rightarrow> string \<Rightarrow> ViewerState \<Rightarrow> error + unit \<times> ViewerState" where
  "reorient_state ext nms st =
     (case mapM (reorient_layer ext nms) (layers st) of
        Inl e \<Rightarrow> Inl e
      | Inr ls \<Rightarrow> Inr ((), st\<lparr>layers := ls\<rparr>))"

text \<open>
  \<^verbatim>\<open>redisplay(*args)\<close>: \<open>None\<close> is the call without argument, \<open>Some v\<close> the call with the
  argument \<open>v\<close> (which may itself be \<^verbatim>\<open>None\<close>). It commits \<^verbatim>\<open>displayDimensions\<close> in a
  transaction of its own.
\<close>

definition redisplay :: "string list option option \<Rightarrow> unit action" where
  "redisplay args self =
     (let self1 = (case args of None \<Rightarrow> self | Some v \<Rightarrow> self\<lparr>display_dimensions := v\<rparr>)
      in txn (\<lambda>st. Inr ((), st\<lparr>displayDimensions := display_dimensions self1\<rparr>)) self1)"

definition display :: "externals \<Rightarrow> str_arg \<Rightarrow> unit action" where
  "display ext dimension self =
     (case store_dimensions ext dimension self of
        Inl e \<Rightarrow> (Inl e, self)
      | Inr self1 \<Rightarrow>
          (case compactNames_opt (display_dimensions self1) of
             Inl e \<Rightarrow> (Inl e, self1)
           | Inr nms \<Rightarrow>
               (case txn (reorient_state ext nms) self1 of
                  (Inl e, self2) \<Rightarrow> (Inl e, self2)
                | (Inr u, self2) \<Rightarrow> redisplay None self2)))"

section \<open>The transform action\<close>

text \<open>
  The argument \<^verbatim>\<open>transform\<close> is the path of a transform file or an array of numbers (a
  flat sequence, a matrix, or an array of any other rank). On the command line the numbers
  arrive as strings, which \<^verbatim>\<open>np.asarray(transform, dtype='float64')\<close> parses; a single
  string is always taken as a path.
\<close>

datatype transform_arg = TPath string | TArray ndarray

definition array_of_list :: "rat list \<Rightarrow> ndarray" where
  "array_of_list xs = \<lparr>shape = [length xs], flat = xs\<rparr>"

text \<open>
  Lines 529 to 531: \<^verbatim>\<open>ensure_list\<close>, and a list of length one replaced by its only
  element, which removes a leading axis of length one.
\<close>

definition unwrap_single :: "ndarray \<Rightarrow> ndarray" where
  "unwrap_single a =
     (case shape a of
        [] \<Rightarrow> a
      | d # rest \<Rightarrow> if d = 1 then a\<lparr>shape := rest\<rparr> else a)"

text \<open>\<^verbatim>\<open>ndarray.reshape\<close> raises \<^verbatim>\<open>ValueError\<close> unless the new shape has as many entries.\<close>

definition reshape :: "ndarray \<Rightarrow> nat list \<Rightarrow> error + ndarray" where
  "reshape a shp =
     (if prod_list shp = length (flat a) then Inr (a\<lparr>shape := shp\<rparr>) else Inl ValueError)"

text \<open>
  \<^verbatim>\<open>int(np.sqrt(x).item())\<close> for a natural number \<open>x\<close>: the largest \<open>r\<close> with
  \<open>r * r \<le> x\<close>, found by searching downwards from \<open>x\<close>.
\<close>

fun isqrt_below :: "nat \<Rightarrow> nat \<Rightarrow> nat" where
  "isqrt_below x 0 = 0"
| "isqrt_below x (Suc r) = (if Suc r * Suc r \<le> x then Suc r else isqrt_below x r)"

definition isqrt :: "nat \<Rightarrow> nat" where
  "isqrt x = isqrt_below x x"

text \<open>Lines 535 to 544: a one-dimensional array is reshaped, an array of rank above two is refused.\<close>

definition reshape_flat :: "ndarray \<Rightarrow> error + ndarray" where
  "reshape_flat a =
     (if length (shape a) = 1 then
        (if length (flat a) = 12 then reshape a [3, 4]
         else if length (flat a) = 16 then reshape a [4, 4]
         else (let n = isqrt (1 + 4 * length (flat a)) div 2 in reshape a [n, n + 1]))
      else if length (shape a) > 2 then Inl ValueError
      else Inr a)"

text \<open>
  Modelled from the spec: \<^verbatim>\<open>to_square\<close> of \<^verbatim>\<open>ngtools.spaces\<close> is not in the source file.
  It squares a matrix by appending the homogeneous bottom row \<open>[0, \<dots>, 0, 1]\<close> when the
  matrix is not already square. The spec is silent about an array that is not
  two-dimensional; the only such array that reaches this point has rank zero, and the
  model reports the \<^verbatim>\<open>IndexError\<close> that reading its shape, or slicing it on line 548, raises.
\<close>

definition to_square :: "ndarray \<Rightarrow> error + ndarray" where
  "to_square a =
     (case shape a of
        [r, c] \<Rightarrow>
          if r = c then Inr a
          else Inr \<lparr>shape = [Suc r, c], flat = flat a @ replicate (c - 1) 0 @ [1]\<rparr>
      | _ \<Rightarrow> Inl IndexError)"

text \<open>The rows of a two-dimensional array.\<close>

definition rows_of :: "ndarray \<Rightarrow> matrix" where
  "rows_of a =
     (case shape a of
        [r, c] \<Rightarrow> map (\<lambda>i. take c (drop (i * c) (flat a))) [0..<r]
      | _ \<Rightarrow> [])"

text \<open>Line 548, \<^verbatim>\<open>transform[:-1]\<close>: all rows but the last.\<close>

definition drop_last_row :: "ndarray \<Rightarrow> error + ndarray" where
  "drop_last_row a =
     (case shape a of
        [] \<Rightarrow> Inl IndexError
      | r # rest \<Rightarrow>
          Inr \<lparr>shape = (r - 1) # rest, flat = take ((r - 1) * prod_list rest) (flat a)\<rparr>)"

text \<open>
  Lines 529 to 544: the argument as an array, read from a file or unwrapped, and reshaped
  when it is flat.
\<close>

definition as_matrix :: "externals \<Rightarrow> transform_arg \<Rightarrow> string option \<Rightarrow> string option
    \<Rightarrow> error + ndarray" where
  "as_matrix ext arg mov fix =
     (case (case arg of
              TPath p \<Rightarrow> load_affine ext p mov fix
            | TArray a \<Rightarrow> Inr (unwrap_single a)) of
        Inl e \<Rightarrow> Inl e
      | Inr a0 \<Rightarrow> reshape_flat a0)"

text \<open>Lines 529 to 548: the matrix that the action applies.\<close>

definition prepare_matrix :: "externals \<Rightarrow> transform_arg \<Rightarrow> bool \<Rightarrow> string option
    \<Rightarrow> string option \<Rightarrow> error + ndarray" where
  "prepare_matrix ext arg invert mov fix =
     (case as_matrix ext arg mov fix of
        Inl e \<Rightarrow> Inl e
      | Inr a1 \<Rightarrow>
          (case to_square a1 of
             Inl e \<Rightarrow> Inl e
           | Inr a2 \<Rightarrow>
               (case (if invert then linalg_inv ext a2 else Inr a2) of
                  Inl e \<Rightarrow> Inl e
                | Inr a3 \<Rightarrow> drop_last_row a3)))"

definition ras_space :: CoordinateSpace where
  "ras_space = \<lparr>names = [''right'', ''anterior'', ''superior''],
                units = [''mm'', ''mm'', ''mm''], scales = [1, 1, 1]\<rparr>"

text \<open>
  \<^verbatim>\<open>composeTransform\<close> and \<^verbatim>\<open>applyTransform\<close> of the transform action, for the new
  transform \<open>T\<close>. As in \<^verbatim>\<open>display\<close>, they return the Boolean of the source code and the
  data source as they leave it.
\<close>

definition composeTransform :: "externals \<Rightarrow> CoordinateSpaceTransform \<Rightarrow> LayerDataSource
    \<Rightarrow> error + bool \<times> LayerDataSource" where
  "composeTransform ext T src =
     (case getTransform ext src of
        Inl e \<Rightarrow> Inl e
      | Inr None \<Rightarrow> Inl AttributeError
      | Inr (Some t) \<Rightarrow>
          (case getDimensions ext src False of
             Inl e \<Rightarrow> Inl e
           | Inr idims \<Rightarrow>
               (let m = (case matrix t of None \<Rightarrow> eye 4 4 | Some m0 \<Rightarrow> m0);
                    odims = outputDimensions t;
                    T0 = \<lparr>matrix = Some m, inputDimensions = idims, outputDimensions = odims\<rparr>
                in case compose ext T T0 of
                     Inl e \<Rightarrow> Inl e
                   | Inr c \<Rightarrow> Inr (True, src\<lparr>transform := Some c\<rparr>))))"

definition applyTransform :: "externals \<Rightarrow> CoordinateSpaceTransform \<Rightarrow> LayerDataSource
    \<Rightarrow> error + bool \<times> LayerDataSource" where
  "applyTransform ext T src =
     (case getDimensions ext src False of
        Inl e \<Rightarrow> Inl e
      | Inr None \<Rightarrow> Inr (False, src)
      | Inr (Some idims) \<Rightarrow>
          (let T0 = \<lparr>matrix = None, inputDimensions = Some idims, outputDimensions = idims\<rparr>
           in case compose ext T T0 of
                Inl e \<Rightarrow> Inl e
              | Inr c \<Rightarrow> Inr (True, src\<lparr>transform := Some c\<rparr>)))"

text \<open>The body of the loop over the sources of an image layer (lines 618 to 622).\<close>

definition apply_source :: "externals \<Rightarrow> CoordinateSpaceTransform \<Rightarrow> LayerDataSource
    \<Rightarrow> error + LayerDataSource" where
  "apply_source ext T src =
     (case getTransform ext src of
        Inl e \<Rightarrow> Inl e
      | Inr (Some t) \<Rightarrow>
          (case composeTransform ext T src of Inl e \<Rightarrow> Inl e | Inr (b, s) \<Rightarrow> Inr s)
      | Inr None \<Rightarrow>
          (case applyTransform ext T src of Inl e \<Rightarrow> Inl e | Inr (b, s) \<Rightarrow> Inr s))"

definition apply_layer :: "externals \<Rightarrow> CoordinateSpaceTransform \<Rightarrow> string list
    \<Rightarrow> ManagedLayer \<Rightarrow> error + ManagedLayer" where
  "apply_layer ext T layer_names l =
     (if layer_names \<noteq> [] \<and> name l \<notin> set layer_names then Inr l
      else if is_image l then
        (case mapM (apply_source ext T) (source l) of
           Inl e \<Rightarrow> Inl e
         | Inr ss \<Rightarrow> Inr (l\<lparr>source := ss\<rparr>))
      else Inr l)"

text \<open>The body of the transaction of the transform action (lines 612 to 622).\<close>

definition apply_state :: "externals \<Rightarrow> CoordinateSpaceTransform \<Rightarrow> string list
    \<Rightarrow> ViewerState \<Rightarrow> error + unit \<times> ViewerState" where
  "apply_state ext T layer_names st =
     (case mapM (apply_layer ext T layer_names) (layers st) of
        Inl e \<Rightarrow> Inl e
      | Inr ls \<Rightarrow> Inr ((), st\<lparr>layers := ls\<rparr>))"

definition str_arg_of :: "string list option \<Rightarrow> str_arg" where
  "str_arg_of d = (case d of None \<Rightarrow> DNone | Some l \<Rightarrow> DList l)"

text \<open>
  The action \<^verbatim>\<open>transform(transform, layer, inv, mov=, fix=)\<close>. \<open>layer_names\<close> is the
  list that lines 522 to 524 make of the argument \<^verbatim>\<open>layer\<close>. The display order is
  forced to \<open>ras\<close> first, by a complete call of \<^verbatim>\<open>display\<close>; the matrix is prepared after
  that call, and the former order is displayed again at the very end.
\<close>

definition transform_action :: "externals \<Rightarrow> transform_arg \<Rightarrow> string list \<Rightarrow> bool
    \<Rightarrow> string option \<Rightarrow> string option \<Rightarrow> unit action" where
  "transform_action ext arg layer_names invert mov fix self =
     (let display_dimensions0 = display_dimensions self in
      case display ext (DStr ''ras'') self of
        (Inl e, self1) \<Rightarrow> (Inl e, self1)
      | (Inr u, self1) \<Rightarrow>
          (case prepare_matrix ext arg invert mov fix of
             Inl e \<Rightarrow> (Inl e, self1)
           | Inr a \<Rightarrow>
               (let T = \<lparr>matrix = Some (rows_of a), inputDimensions = Some ras_space,
                         outputDimensions = ras_space\<rparr>
                in case txn (apply_state ext T layer_names) self1 of
                     (Inl e, self2) \<Rightarrow> (Inl e, self2)
                   | (Inr u2, self2) \<Rightarrow> display ext (str_arg_of display_dimensions0) self2)))"

section \<open>The unload, load and state actions\<close>

text \<open>
  \<^verbatim>\<open>del state.layers[name]\<close> removes the first layer of that name. What the viewer does for
  a name that no layer has is not fixed by the source file nor by the spec; it is the
  parameter \<open>missing\<close>.
\<close>

fun remove_first :: "string \<Rightarrow> ManagedLayer list \<Rightarrow> ManagedLayer list option" where
  "remove_first k [] = None"
| "remove_first k (l # ls) =
     (if name l = k then Some ls else map_option (Cons l) (remove_first k ls))"

definition del_layer :: "(ManagedLayer list \<Rightarrow> error + ManagedLayer list) \<Rightarrow> string
    \<Rightarrow> ManagedLayer list \<Rightarrow> error + ManagedLayer list" where
  "del_layer missing k ls = (case remove_first k ls of Some ls' \<Rightarrow> Inr ls' | None \<Rightarrow> missing ls)"

fun del_layers :: "(ManagedLayer list \<Rightarrow> error + ManagedLayer list) \<Rightarrow> string list
    \<Rightarrow> ManagedLayer list \<Rightarrow> error + ManagedLayer list" where
  "del_layers missing [] ls = Inr ls"
| "del_layers missing (k # ks) ls =
     (case del_layer missing k ls of Inl e \<Rightarrow> Inl e | Inr ls' \<Rightarrow> del_layers missing ks ls')"

text \<open>
  \<^verbatim>\<open>unload(layer)\<close>: without layer names, a first transaction reads the names of all the
  layers; a second one deletes the layers name by name.
\<close>

definition unload :: "(ManagedLayer list \<Rightarrow> error + ManagedLayer list) \<Rightarrow> str_arg
    \<Rightarrow> unit action" where
  "unload missing layer self =
     (case (if ensure_list layer = []
            then txn (\<lambda>st. Inr (map name (layers st), st)) self
            else (Inr (ensure_list layer), self)) of
        (Inl e, self1) \<Rightarrow> (Inl e, self1)
      | (Inr nms, self1) \<Rightarrow>
          txn (\<lambda>st. case del_layers missing nms (layers st) of
                      Inl e \<Rightarrow> Inl e
                    | Inr ls \<Rightarrow> Inr ((), st\<lparr>layers := ls\<rparr>)) self1)"

text \<open>
  What \<^verbatim>\<open>load\<close> and \<^verbatim>\<open>state\<close> use of the host: the prefixes \<^verbatim>\<open>remote_protocols()\<close>, the
  address of the local file server (none when the viewer was made without one), the
  reader of local files \<^verbatim>\<open>LocalSource.from_filename\<close>, the file system, the JSON and URL
  codecs, and the conversion between a JSON document and the state of the viewer. A JSON
  document is kept as its text.
\<close>

type_synonym json = string

record host =
  remote_protocols :: "string list"
  fileserver :: "(string \<times> string) option"
  local_from_filename :: "string \<Rightarrow> string option \<Rightarrow> error + LayerDataSource"
  path_exists :: "string \<Rightarrow> bool"
  read_json :: "string \<Rightarrow> error + json"
  open_wb :: "string \<Rightarrow> error option"
  json_loads :: "string \<Rightarrow> error + json"
  json_dumps :: "json \<Rightarrow> string"
  urlunquote :: "string \<Rightarrow> string"
  urlquote :: "string \<Rightarrow> string"
  set_state :: "json \<Rightarrow> ViewerState \<Rightarrow> error + ViewerState"
  to_json :: "ViewerState \<Rightarrow> json"

definition startswith :: "string \<Rightarrow> string \<Rightarrow> bool" where
  "startswith s p = (take (length p) s = p)"

definition endswith :: "string \<Rightarrow> string \<Rightarrow> bool" where
  "endswith s p = (length p \<le> length s \<and> drop (length s - length p) s = p)"

definition LAYERTYPES :: "string list" where
  "LAYERTYPES = [''volume'', ''labels'', ''surface'', ''tracts'', ''roi'', ''points'',
     ''transform'', ''affine'']"

definition NG_FORMATS :: "string list" where
  "NG_FORMATS = [''boss'', ''brainmap'', ''deepzoom'', ''dvid'', ''graphene'', ''local'',
     ''n5'', ''nggraph'', ''nifti'', ''obj'', ''precomputed'', ''render'', ''vtk'', ''zarr'',
     ''zarr2'', ''zarr3'']"

definition EXTRA_FORMATS :: "string list" where
  "EXTRA_FORMATS = [''mgh'', ''mgz'', ''trk'', ''lta'', ''surf'', ''annot'', ''tck'', ''mif'',
     ''gii'', ''tiff'', ''niftyreg'']"

text \<open>The first protocol of the list that the file name starts with is split off.\<close>

fun strip_protocol :: "string list \<Rightarrow> string \<Rightarrow> string option \<times> string" where
  "strip_protocol [] f = (None, f)"
| "strip_protocol (p # ps) f =
     (if startswith f (p @ ''://'') then (Some p, drop (length p + 3) f)
      else strip_protocol ps f)"

definition guess_format :: "string \<Rightarrow> string option" where
  "guess_format f =
     (if endswith f ''.mgh'' then Some ''mgh''
      else if endswith f ''.mgz'' then Some ''mgz''
      else if endswith f ''.nii'' \<or> endswith f ''.nii.gz'' then Some ''nifti''
      else if endswith f ''.trk'' then Some ''trk''
      else if endswith f ''.tck'' then Some ''tck''
      else if endswith f ''.lta'' then Some ''lta''
      else if endswith f ''.mif'' then Some ''mif''
      else if endswith f ''.tiff'' \<or> endswith f ''.tif'' then Some ''tiff''
      else if endswith f ''.gii'' then Some ''gii''
      else if endswith f ''.zarr'' \<or> endswith f ''.zarr/'' then Some ''zarr''
      else if endswith f ''.vtk'' then Some ''vtk''
      else if endswith f ''.obj'' then Some ''obj''
      else if endswith f ''.n5'' \<or> endswith f ''.n5/'' then Some ''n5''
      else None)"

definition parse_filename :: "string \<Rightarrow> string option \<times> string option \<times> string" where
  "parse_filename filename =
     (case strip_protocol LAYERTYPES filename of
        (datatype, f1) \<Rightarrow>
          (case strip_protocol (NG_FORMATS @ EXTRA_FORMATS) f1 of
             (Some fmt, f2) \<Rightarrow> (datatype, Some fmt, f2)
           | (None, f2) \<Rightarrow> (datatype, guess_format f2, f2)))"

definition ensure_url :: "host \<Rightarrow> string \<Rightarrow> error + string" where
  "ensure_url h filename =
     (if list_ex (startswith filename) (remote_protocols h) then Inr filename
      else
        (let f1 = (if startswith filename ''/'' then ''root://'' @ filename else filename)
         in case fileserver h of
              None \<Rightarrow> Inl AttributeError
            | Some (ip, port) \<Rightarrow> Inr (''http://'' @ ip @ '':'' @ port @ ''/'' @ f1)))"

text \<open>\<^verbatim>\<open>os.path.basename\<close>: what follows the last slash.\<close>

definition basename :: "string \<Rightarrow> string" where
  "basename p = rev (takeWhile (\<lambda>c. c \<noteq> CHR ''/'') (rev p))"

text \<open>
  The layer that one iteration of the loop of \<^verbatim>\<open>load\<close> builds (lines 424 to 472). The shader
  controls that the source code computes from the quantiles are not part of the model of a
  layer; reading the quantiles belongs to what \<open>from_filename\<close> and
  \<open>local_from_filename\<close> stand for, failures included.
\<close>

definition make_layer :: "externals \<Rightarrow> host \<Rightarrow> string option \<Rightarrow> string \<Rightarrow> error + ManagedLayer" where
  "make_layer ext h name0 filename0 =
     (case parse_filename filename0 of
        (layertype, format, filename) \<Rightarrow>
          (let nm = (case name0 of
                       None \<Rightarrow> basename filename
                     | Some n \<Rightarrow> if n \<noteq> [] then n else basename filename)
           in case format of
                None \<Rightarrow> Inl ValueError
              | Some fmt \<Rightarrow>
                  if fmt \<in> set NG_FORMATS then
                    (case ensure_url h filename of
                       Inl e \<Rightarrow> Inl e
                     | Inr u \<Rightarrow>
                         (case from_filename ext (fmt @ ''://'' @ u) of
                            Inl e \<Rightarrow> Inl e
                          | Inr src \<Rightarrow>
                              Inr \<lparr>name = nm, is_image = True,
                                   source = [\<lparr>is_local = False, url = fmt @ ''://'' @ u,
                                              transform = transform src,
                                              dimensions = None\<rparr>],
                                   shader = None\<rparr>))
                  else if fmt \<in> set EXTRA_FORMATS then
                    (case local_from_filename h (fmt @ ''://'' @ filename) layertype of
                       Inl e \<Rightarrow> Inl e
                     | Inr src \<Rightarrow>
                         Inr \<lparr>name = nm, is_image = True, source = [src], shader = None\<rparr>)
                  else Inl ValueError))"

text \<open>The loop of \<^verbatim>\<open>load\<close>: each layer is appended in a transaction of its own.\<close>

fun load_files :: "externals \<Rightarrow> host \<Rightarrow> string option \<Rightarrow> string list \<Rightarrow> unit action" where
  "load_files ext h name0 [] self = (Inr (), self)"
| "load_files ext h name0 (f # fs) self =
     (case make_layer ext h name0 f of
        Inl e \<Rightarrow> (Inl e, self)
      | Inr l \<Rightarrow>
          (case txn (\<lambda>st. Inr ((), st\<lparr>layers := layers st @ [l]\<rparr>)) self of
             (Inl e, self1) \<Rightarrow> (Inl e, self1)
           | (Inr u, self1) \<Rightarrow> load_files ext h name0 fs self1))"

text \<open>
  \<^verbatim>\<open>load(filename, name, transform)\<close>. The check of the name comes first. The call
  \<^verbatim>\<open>self.transform(transform, name=name0)\<close> on line 478 passes a keyword that
  \<^verbatim>\<open>transform\<close> does not have, so it raises \<^verbatim>\<open>TypeError\<close> whenever a transform is given;
  \<open>transform_given\<close> is the truth value of the argument \<^verbatim>\<open>transform\<close>.
\<close>

definition load :: "externals \<Rightarrow> host \<Rightarrow> str_arg \<Rightarrow> string option \<Rightarrow> bool \<Rightarrow> unit action" where
  "load ext h filename name0 transform_given self =
     (let filenames = ensure_list filename in
      if (case name0 of None \<Rightarrow> False | Some n \<Rightarrow> n \<noteq> []) \<and> length filenames > 1
      then (Inl ValueError, self)
      else
        (let display_dimensions0 = display_dimensions self in
         case redisplay (Some None) self of
           (Inl e, self1) \<Rightarrow> (Inl e, self1)
         | (Inr u, self1) \<Rightarrow>
             (case load_files ext h name0 filenames self1 of
                (Inl e, self2) \<Rightarrow> (Inl e, self2)
              | (Inr u2, self2) \<Rightarrow>
                  if transform_given then (Inl TypeError, self2)
                  else redisplay (Some display_dimensions0) self2)))"

text \<open>
  The argument \<^verbatim>\<open>url\<close> of \<^verbatim>\<open>state\<close> is documented as a Boolean flag, and the command line
  always passes one; a caller of the method can also pass a string.
\<close>

datatype url_arg = UFlag bool | UStr string

fun truthy :: "url_arg \<Rightarrow> bool" where
  "truthy (UFlag b) = b"
| "truthy (UStr s) = (s \<noteq> [])"

fun contains :: "string \<Rightarrow> string \<Rightarrow> bool" where
  "contains sub [] = (sub = [])"
| "contains sub (c # cs) = (startswith (c # cs) sub \<or> contains sub cs)"

text \<open>\<^verbatim>\<open>urlparse(url).fragment\<close>: what follows the first \<open>#\<close>.\<close>

definition fragment :: "string \<Rightarrow> string" where
  "fragment u = (case dropWhile (\<lambda>c. c \<noteq> CHR ''#'') u of [] \<Rightarrow> [] | c # f \<Rightarrow> f)"

text \<open>
  Lines 675 to 686: the JSON document that \<^verbatim>\<open>state\<close> loads. The tests on lines 679 to 684
  read the variable \<^verbatim>\<open>url\<close>, not \<^verbatim>\<open>load\<close>: \<^verbatim>\<open>'://' in url\<close> raises \<^verbatim>\<open>TypeError\<close> when
  \<^verbatim>\<open>url\<close> is a Boolean, and so does \<^verbatim>\<open>json.loads(url)\<close>.
\<close>

definition state_load :: "host \<Rightarrow> string \<Rightarrow> url_arg \<Rightarrow> error + json" where
  "state_load h ld u =
     (if path_exists h ld \<or> list_ex (startswith ld) (remote_protocols h) then read_json h ld
      else if truthy u then
        (case u of
           UFlag b \<Rightarrow> Inl TypeError
         | UStr s \<Rightarrow>
             (case (if contains ''://'' s then
                      (case fragment s of
                         [] \<Rightarrow> Inl IndexError
                       | c # rest \<Rightarrow> if c \<noteq> CHR ''!'' then Inl ValueError else Inr rest)
                    else Inr s) of
                Inl e \<Rightarrow> Inl e
              | Inr s1 \<Rightarrow> json_loads h (urlunquote h s1)))
      else
        (case u of
           UFlag b \<Rightarrow> Inl TypeError
         | UStr s \<Rightarrow> json_loads h s))"

datatype state_result = Document json | Url string

text \<open>
  \<^verbatim>\<open>state(load, save, url, print)\<close>. Saving opens the file in binary mode and hands it to
  \<^verbatim>\<open>json.dump\<close>, which writes text: after the file is opened the call raises \<^verbatim>\<open>TypeError\<close>.
  Printing is not an effect on the state; with the \<^verbatim>\<open>url\<close> flag the value returned is
  the URL that is printed.
\<close>

definition state_action :: "host \<Rightarrow> string option \<Rightarrow> string option \<Rightarrow> url_arg \<Rightarrow> bool
    \<Rightarrow> state_result action" where
  "state_action h ld save u prnt self =
     (case (case (case ld of None \<Rightarrow> None | Some l \<Rightarrow> if l \<noteq> [] then Some l else None) of
              Some l \<Rightarrow>
                (case state_load h l u of
                   Inl e \<Rightarrow> (Inl e, self)
                 | Inr doc \<Rightarrow>
                     txn (\<lambda>st. case set_state h doc st of
                                 Inl e \<Rightarrow> Inl e
                               | Inr st' \<Rightarrow> Inr (doc, st')) self)
            | None \<Rightarrow> txn (\<lambda>st. Inr (to_json h st, st)) self) of
        (Inl e, self1) \<Rightarrow> (Inl e, self1)
      | (Inr doc, self1) \<Rightarrow>
          (case (case save of None \<Rightarrow> None | Some f \<Rightarrow> if f \<noteq> [] then Some f else None) of
             Some f \<Rightarrow> (Inl (case open_wb h f of Some e \<Rightarrow> e | None \<Rightarrow> TypeError), self1)
           | None \<Rightarrow>
               if prnt \<and> truthy u
               then (Inr (Url (''https://neuroglancer-demo.appspot.com/#!''
                                 @ urlquote h (json_dumps h doc))), self1)
               else (Inr (Document doc), self1)))"

section \<open>The layout action\<close>

text \<open>
  Python's list operations with an integer index: a negative index counts from the end;
  reading and deleting raise \<^verbatim>\<open>IndexError\<close> out of range, \<^verbatim>\<open>list.insert\<close> clamps.
\<close>

definition py_norm :: "int \<Rightarrow> nat \<Rightarrow> int" where
  "py_norm i n = (if i < 0 then i + int n else i)"

definition py_index :: "'a list \<Rightarrow> int \<Rightarrow> error + 'a" where
  "py_index xs i =
     (let j = py_norm i (length xs)
      in if 0 \<le> j \<and> j < int (length xs) then Inr (xs ! nat j) else Inl IndexError)"

definition py_insert :: "int \<Rightarrow> 'a \<Rightarrow> 'a list \<Rightarrow> 'a list" where
  "py_insert i x xs =
     (let j = py_norm i (length xs);
          k = (if j < 0 then 0 else min (nat j) (length xs))
      in take k xs @ x # drop k xs)"

definition py_del :: "'a list \<Rightarrow> int \<Rightarrow> error + 'a list" where
  "py_del xs i =
     (let j = py_norm i (length xs)
      in if 0 \<le> j \<and> j < int (length xs) then Inr (take (nat j) xs @ drop (Suc (nat j)) xs)
         else Inl IndexError)"

text \<open>
  Only a \<^verbatim>\<open>StackLayout\<close> has the attribute \<^verbatim>\<open>children\<close>, and only a \<^verbatim>\<open>LayerGroupViewer\<close>
  has the attribute \<^verbatim>\<open>layers\<close>.
\<close>

fun children_of :: "LayoutNode \<Rightarrow> error + LayoutNode list" where
  "children_of (StackLayout t cs) = Inr cs"
| "children_of (LeafView k) = Inl AttributeError"
| "children_of (LayerGroupViewer ls l f) = Inl AttributeError"

fun layers_of :: "LayoutNode \<Rightarrow> error + string list" where
  "layers_of (LayerGroupViewer ls l f) = Inr ls"
| "layers_of (LeafView k) = Inl AttributeError"
| "layers_of (StackLayout t cs) = Inl AttributeError"

fun is_group :: "LayoutNode \<Rightarrow> bool" where
  "is_group (LayerGroupViewer ls l f) = True"
| "is_group (LeafView k) = False"
| "is_group (StackLayout t cs) = False"

fun with_children :: "LayoutNode \<Rightarrow> (LayoutNode list \<Rightarrow> error + LayoutNode list)
    \<Rightarrow> error + LayoutNode" where
  "with_children (StackLayout t cs) f =
     (case f cs of Inl e \<Rightarrow> Inl e | Inr cs' \<Rightarrow> Inr (StackLayout t cs'))"
| "with_children (LeafView k) f = Inl AttributeError"
| "with_children (LayerGroupViewer ls l f0) f = Inl AttributeError"

definition nonempty :: "string option \<Rightarrow> bool" where
  "nonempty s = (case s of None \<Rightarrow> False | Some t \<Rightarrow> t \<noteq> [])"

definition nonzero :: "int option \<Rightarrow> bool" where
  "nonzero i = (case i of None \<Rightarrow> False | Some k \<Rightarrow> k \<noteq> 0)"

text \<open>
  Lines 759 to 775: the value of the local variable \<^verbatim>\<open>layout\<close> once the requested layouts
  are wrapped and stacked. It is a node, or the empty list (\<open>None\<close> here) when no layout
  was requested and no stack either.
\<close>

definition build_layout :: "string list \<Rightarrow> string option \<Rightarrow> string list \<Rightarrow> rat
    \<Rightarrow> LayoutNode option" where
  "build_layout lay stack layer flex =
     (let nodes = (if layer \<noteq> [] then map (\<lambda>L. LayerGroupViewer layer (LeafView L) flex) lay
                   else map LeafView lay);
          stack1 = (if length nodes > 1 \<and> \<not> nonempty stack then Some ''row'' else stack)
      in case stack1 of
           Some t \<Rightarrow>
             if t \<noteq> [] then Some (StackLayout t nodes)
             else (case nodes of [n] \<Rightarrow> Some n | _ \<Rightarrow> None)
         | None \<Rightarrow> (case nodes of [n] \<Rightarrow> Some n | _ \<Rightarrow> None))"

text \<open>
  Lines 802 to 804, as written: \<^verbatim>\<open>parent\<close> starts at the root of the layout of the state,
  and each index of the path is looked up in \<^verbatim>\<open>layout.children\<close>, the children of the
  layout that is being built, not in the children of \<^verbatim>\<open>parent\<close>.
\<close>

fun walk :: "LayoutNode option \<Rightarrow> int list \<Rightarrow> LayoutNode \<Rightarrow> error + LayoutNode" where
  "walk new [] parent = Inr parent"
| "walk new (i # indices) parent =
     (case new of
        None \<Rightarrow> Inl AttributeError
      | Some n \<Rightarrow>
          (case children_of n of
             Inl e \<Rightarrow> Inl e
           | Inr cs \<Rightarrow>
               (case py_index cs i of
                  Inl e \<Rightarrow> Inl e
                | Inr c \<Rightarrow> walk new indices c)))"

text \<open>
  Following the words of the spec, for comparison: the path walked from the root of the
  existing layout tree, each index looked up in the children of the node reached so far.
\<close>

fun walk_from_root :: "int list \<Rightarrow> LayoutNode \<Rightarrow> error + LayoutNode" where
  "walk_from_root [] parent = Inr parent"
| "walk_from_root (i # indices) parent =
     (case children_of parent of
        Inl e \<Rightarrow> Inl e
      | Inr cs \<Rightarrow>
          (case py_index cs i of
             Inl e \<Rightarrow> Inl e
           | Inr c \<Rightarrow> walk_from_root indices c))"

text \<open>
  Lines 805 to 815: a layout that is not a \<^verbatim>\<open>LayerGroupViewer\<close> is wrapped in one, scoped
  to the given layers, or else to the layers of the last child of \<^verbatim>\<open>parent\<close>, or else to
  all the layers of the state.
\<close>

definition wrap_layout :: "LayoutNode option \<Rightarrow> string list \<Rightarrow> rat \<Rightarrow> LayoutNode
    \<Rightarrow> ViewerState \<Rightarrow> error + LayoutNode option" where
  "wrap_layout new layer flex parent st =
     (case new of
        None \<Rightarrow> Inr None
      | Some n \<Rightarrow>
          if is_group n then Inr (Some n)
          else if layer \<noteq> [] then Inr (Some (LayerGroupViewer layer n flex))
          else
            (case children_of parent of
               Inl e \<Rightarrow> Inl e
             | Inr cs \<Rightarrow>
                 if cs \<noteq> [] then
                   (case layers_of (last cs) of
                      Inl e \<Rightarrow> Inl e
                    | Inr ls \<Rightarrow> Inr (Some (LayerGroupViewer ls n flex)))
                 else Inr (Some (LayerGroupViewer (map name (layers st)) n flex))))"

text \<open>
  Lines 816 to 821. The viewer refuses a child that is not a layout (the empty list) with
  \<^verbatim>\<open>ValueError\<close>. \<^verbatim>\<open>elif insert\<close> and \<^verbatim>\<open>elif remove\<close> test the position itself, so that
  position 0 does nothing.
\<close>

definition edit_children :: "bool \<Rightarrow> int option \<Rightarrow> int option \<Rightarrow> LayoutNode option
    \<Rightarrow> LayoutNode \<Rightarrow> error + LayoutNode" where
  "edit_children do_append ins rem new parent =
     (if do_append then
        with_children parent
          (\<lambda>cs. case new of None \<Rightarrow> Inl ValueError | Some n \<Rightarrow> Inr (cs @ [n]))
      else if nonzero ins then
        with_children parent
          (\<lambda>cs. case new of None \<Rightarrow> Inl ValueError | Some n \<Rightarrow> Inr (py_insert (the ins) n cs))
      else if nonzero rem then with_children parent (\<lambda>cs. py_del cs (the rem))
      else Inr parent)"

text \<open>
  The body of the transaction of \<^verbatim>\<open>layout\<close> (lines 800 to 824). An edit of \<^verbatim>\<open>parent\<close>
  reaches the state only when \<^verbatim>\<open>parent\<close> is still the root of its layout, that is when the
  path is empty; otherwise \<^verbatim>\<open>parent\<close> is a child of the layout being built.
\<close>

definition layout_edit :: "LayoutNode option \<Rightarrow> string list \<Rightarrow> rat \<Rightarrow> bool \<Rightarrow> int option
    \<Rightarrow> int option \<Rightarrow> int list \<Rightarrow> ViewerState \<Rightarrow> error + LayoutNode \<times> ViewerState" where
  "layout_edit new layer flex do_append ins rem indices st =
     (if do_append \<or> ins \<noteq> None \<or> rem \<noteq> None then
        (case walk new indices (layout st) of
           Inl e \<Rightarrow> Inl e
         | Inr parent \<Rightarrow>
             (case wrap_layout new layer flex parent st of
                Inl e \<Rightarrow> Inl e
              | Inr new1 \<Rightarrow>
                  (case edit_children do_append ins rem new1 parent of
                     Inl e \<Rightarrow> Inl e
                   | Inr parent1 \<Rightarrow>
                       (let st1 = (if indices = [] then st\<lparr>layout := parent1\<rparr> else st)
                        in Inr (layout st1, st1)))))
      else
        (case new of
           None \<Rightarrow> Inl ValueError
         | Some n \<Rightarrow> Inr (n, st\<lparr>layout := n\<rparr>)))"

text \<open>
  Lines 783 to 793: a non-empty path given to \<^verbatim>\<open>insert\<close> or \<^verbatim>\<open>remove\<close> replaces the
  indices, and its last element is the position.
\<close>

definition take_position :: "int list option \<Rightarrow> int list \<Rightarrow> int list \<times> int option" where
  "take_position arg indices =
     (case arg of
        None \<Rightarrow> (indices, None)
      | Some [] \<Rightarrow> (indices, None)
      | Some (x # xs) \<Rightarrow> (butlast (x # xs), Some (last (x # xs))))"

text \<open>
  The action \<^verbatim>\<open>layout(layout, stack, layer, flex=, append=, insert=, remove=)\<close>, with the
  paths as the command line gives them: lists of integers, or \<open>None\<close> for an option that
  is absent.
\<close>

definition layout_action :: "str_arg \<Rightarrow> string option \<Rightarrow> str_arg \<Rightarrow> rat \<Rightarrow> int list option
    \<Rightarrow> int list option \<Rightarrow> int list option \<Rightarrow> LayoutNode action" where
  "layout_action lay stack layer flex append_path insert_path remove_path self =
     (if ensure_list lay = [] \<and> remove_path = None then txn (\<lambda>st. Inr (layout st, st)) self
      else
        (case (if (length (ensure_list lay) > 1 \<or> nonempty stack) \<and> ensure_list layer = []
               then txn (\<lambda>st. Inr (map name (layers st), st)) self
               else (Inr (ensure_list layer), self)) of
           (Inl e, self1) \<Rightarrow> (Inl e, self1)
         | (Inr layer1, self1) \<Rightarrow>
             (let new = build_layout (ensure_list lay) stack layer1 flex;
                  do_append = (append_path \<noteq> None);
                  indices0 = (case append_path of None \<Rightarrow> [] | Some a \<Rightarrow> a);
                  (indices1, ins) = take_position insert_path indices0;
                  (indices2, rem) = take_position remove_path indices1
              in if (if do_append then 1 else 0) + (if nonzero ins then 1 else 0)
                      + (if nonzero rem then 1 else (0::nat)) > 1
                 then (Inl ValueError, self1)
                 else if new \<noteq> None \<and> nonzero rem then (Inl ValueError, self1)
                 else txn (layout_edit new layer1 flex do_append ins rem indices2) self1)))"

section \<open>Example inputs\<close>

text \<open>
  Concrete inputs on which the theorems below are exercised. The alias table holds the six
  orientation letters that the documentation of \<^verbatim>\<open>display\<close> names; the table of named
  transforms holds one entry, from the native axes \<open>xyz\<close> to \<open>ras\<close>.
\<close>

definition example_letter2full :: "string \<rightharpoonup> string" where
  "example_letter2full = map_of [(''r'', ''right''), (''l'', ''left''), (''a'', ''anterior''),
     (''p'', ''posterior''), (''i'', ''inferior''), (''s'', ''superior'')]"

definition space :: "string list \<Rightarrow> CoordinateSpace" where
  "space nms = \<lparr>names = nms, units = replicate (length nms) ''mm'',
                scales = replicate (length nms) 1\<rparr>"

definition example_neurotransforms :: "string \<times> string \<rightharpoonup> CoordinateSpaceTransform" where
  "example_neurotransforms = map_of [((''xyz'', ''ras''),
     \<lparr>matrix = Some (eye 3 4), inputDimensions = Some (space [''x'', ''y'', ''z'']),
      outputDimensions = space [''right'', ''anterior'', ''superior'']\<rparr>)]"

text \<open>
  An instance of \<^verbatim>\<open>np.linalg.inv\<close> for the examples. It raises on a matrix that has a row
  of zeros, where the elimination of numpy meets a pivot that is exactly zero. The examples
  give it no other matrix; on any other one this instance returns its argument, which is
  the inverse of the identity only.
\<close>

definition example_linalg_inv :: "ndarray \<Rightarrow> error + ndarray" where
  "example_linalg_inv a =
     (if list_ex (list_all (\<lambda>x. x = 0)) (rows_of a) then Inl LinAlgError else Inr a)"

text \<open>
  The description provider of the examples knows the native dimensions \<open>x, y, z\<close> of one
  volume, and nothing of any other URL.
\<close>

definition example_externals :: externals where
  "example_externals = \<lparr>letter2full = example_letter2full,
     neurotransforms = example_neurotransforms,
     compose = compose_spec,
     from_filename =
       (\<lambda>u. Inr \<lparr>is_local = False, url = u, transform = None,
                 dimensions = (if u = ''nifti://http://127.0.0.1:9123/volume.nii''
                               then Some (space [''x'', ''y'', ''z'']) else None)\<rparr>),
     load_affine = (\<lambda>p m f. Inl OSError),
     linalg_inv = example_linalg_inv\<rparr>"

text \<open>
  A source as \<^verbatim>\<open>load\<close> puts it in the state: a URL, and no transform since the
  description of the volume has none.
\<close>

definition example_source :: LayerDataSource where
  "example_source = \<lparr>is_local = False, url = ''nifti://http://127.0.0.1:9123/volume.nii'',
     transform = None, dimensions = None\<rparr>"

definition example_state :: ViewerState where
  "example_state =
     \<lparr>layers = [\<lparr>name = ''brain'', is_image = True, source = [example_source],
                  shader = None\<rparr>],
      layout = LeafView ''xy'', displayDimensions = Some [''x'', ''y'', ''z'']\<rparr>"

definition example_session :: LocalNeuroglancer where
  "example_session = \<lparr>viewer = example_state,
     display_dimensions = Some [''x'', ''y'', ''z''], committed = []\<rparr>"

text \<open>
  A source that carries a transform of its own, from the axes \<open>x, y, z\<close> to themselves,
  and the state and object that hold it.
\<close>

definition example_transformed_source :: LayerDataSource where
  "example_transformed_source =
     \<lparr>is_local = False, url = ''nifti://http://127.0.0.1:9123/oriented.nii'',
      transform = Some \<lparr>matrix = Some (eye 3 4),
                        inputDimensions = Some (space [''x'', ''y'', ''z'']),
                        outputDimensions = space [''x'', ''y'', ''z'']\<rparr>,
      dimensions = None\<rparr>"

definition example_transformed_session :: LocalNeuroglancer where
  "example_transformed_session =
     \<lparr>viewer = \<lparr>layers = [\<lparr>name = ''oriented'', is_image = True,
                            source = [example_transformed_source], shader = None\<rparr>],
                layout = LeafView ''xy'', displayDimensions = Some [''x'', ''y'', ''z'']\<rparr>,
      display_dimensions = Some [''x'', ''y'', ''z''], committed = []\<rparr>"


text \<open>
  A source whose transform has output dimensions only, neither matrix nor input
  dimensions, as a viewer state may hold it; the description provider of the examples
  knows nothing of its URL. The state next to it holds the first example source as well.
\<close>

definition example_remote_source :: LayerDataSource where
  "example_remote_source = \<lparr>is_local = False, url = ''nifti://volume.nii'',
     transform = Some \<lparr>matrix = None, inputDimensions = None,
                       outputDimensions = space [''x'', ''y'', ''z'']\<rparr>,
     dimensions = None\<rparr>"

definition example_remote_session :: LocalNeuroglancer where
  "example_remote_session =
     \<lparr>viewer = \<lparr>layers = [\<lparr>name = ''brain'', is_image = True, source = [example_source],
                            shader = None\<rparr>,
                          \<lparr>name = ''volume'', is_image = True,
                            source = [example_remote_source], shader = None\<rparr>],
                layout = LeafView ''xy'', displayDimensions = Some [''x'', ''y'', ''z'']\<rparr>,
      display_dimensions = Some [''x'', ''y'', ''z''], committed = []\<rparr>"

text \<open>
  An instance of \<^verbatim>\<open>compose\<close> that raises \<^verbatim>\<open>AttributeError\<close> when the existing
  transform has no input dimensions, as a function does that reads the names of those
  dimensions; otherwise it is \<open>compose_spec\<close>.
\<close>

definition example_strict_compose :: "CoordinateSpaceTransform \<Rightarrow> CoordinateSpaceTransform
    \<Rightarrow> error + CoordinateSpaceTransform" where
  "example_strict_compose tnew texisting =
     (case inputDimensions texisting of
        None \<Rightarrow> Inl AttributeError
      | Some d \<Rightarrow> compose_spec tnew texisting)"

definition example_strict_externals :: externals where
  "example_strict_externals = example_externals\<lparr>compose := example_strict_compose\<rparr>"

text \<open>A bare source: no transform, and a URL of which the provider knows nothing.\<close>

definition example_bare_source :: LayerDataSource where
  "example_bare_source = \<lparr>is_local = False, url = ''nifti://bare.nii'',
     transform = None, dimensions = None\<rparr>"

text \<open>
  A host with a local file server, on which no file exists and every file access fails;
  JSON texts and URL fragments are taken as they are, and a loaded document does not change
  the state.
\<close>

definition example_host :: host where
  "example_host = \<lparr>remote_protocols = [''http://'', ''https://''],
     fileserver = Some (''127.0.0.1'', ''9123''),
     local_from_filename = (\<lambda>f t. Inl OSError),
     path_exists = (\<lambda>f. False),
     read_json = (\<lambda>f. Inl OSError),
     open_wb = (\<lambda>f. Some OSError),
     json_loads = (\<lambda>s. Inr s),
     json_dumps = (\<lambda>j. j),
     urlunquote = (\<lambda>s. s),
     urlquote = (\<lambda>s. s),
     set_state = (\<lambda>j st. Inr st),
     to_json = (\<lambda>st. ''{}'')\<rparr>"

text \<open>
  A state whose layout is a row of two stacks, and a state whose layout is a single panel.
\<close>

definition example_nested_layout :: LayoutNode where
  "example_nested_layout =
     StackLayout ''row''
       [StackLayout ''column'' [LayerGroupViewer [''brain''] (LeafView ''xy'') 1],
        StackLayout ''column'' [LayerGroupViewer [''brain''] (LeafView ''yz'') 1]]"

definition example_nested_session :: LocalNeuroglancer where
  "example_nested_session = example_session\<lparr>viewer := example_state\<lparr>layout := example_nested_layout\<rparr>\<rparr>"

section \<open>Properties of the display action\<close>

lemma display_count_error:
  "ensure_list dimension \<noteq> [] \<Longrightarrow>
   length (expand_single (ensure_list dimension)) \<noteq> 3 \<Longrightarrow>
   display ext dimension self = (Inl ValueError, self)"
  by (simp add: display_def store_dimensions_def)

lemma display_stored:
  "ensure_list dimension \<noteq> [] \<Longrightarrow>
   length (expand_single (ensure_list dimension)) = 3 \<Longrightarrow>
   display_dimensions (snd (display ext dimension self)) =
     Some (map (resolve_letter ext) (expand_single (ensure_list dimension)))"
  by (simp add: display_def store_dimensions_def txn_def redisplay_def
           split: sum.splits prod.splits)

text \<open>
  Claim C6. For a non-empty dimension argument of \<^verbatim>\<open>display\<close>: when the resolved names
  do not number exactly three, the action raises \<^verbatim>\<open>ValueError\<close> and the whole object (the
  stored display order, the viewer state and the list of commits) is as before; when they
  number three, they become the stored display order. A token whose lower-cased form is in
  the alias table resolves to the same name whatever its case, and a token that is not in
  the table is passed through unchanged.
\<close>

theorem display_dimension_validation:
  assumes "ensure_list dimension \<noteq> []"
  shows "(length (map (resolve_letter ext) (expand_single (ensure_list dimension))) \<noteq> 3
            \<longrightarrow> display ext dimension self = (Inl ValueError, self))
       \<and> (length (expand_single (ensure_list dimension)) = 3
            \<longrightarrow> display_dimensions (snd (display ext dimension self))
                = Some (map (resolve_letter ext) (expand_single (ensure_list dimension))))
       \<and> (\<forall>t u. lower t = lower u \<and> letter2full ext (lower t) \<noteq> None
            \<longrightarrow> resolve_letter ext t = resolve_letter ext u)
       \<and> (\<forall>t. letter2full ext (lower t) = None \<longrightarrow> resolve_letter ext t = t)"
  using assms display_count_error[of dimension ext self] display_stored[of dimension ext self]
  by (auto simp: resolve_letter_def)

theorem display_dimension_validation_witness:
  "ensure_list (DList [''R'', ''a'']) \<noteq> []
   \<and> display example_externals (DList [''R'', ''a'']) example_session
       = (Inl ValueError, example_session)
   \<and> display_dimensions (snd (display example_externals (DStr ''RAs'') example_session))
       = Some [''right'', ''anterior'', ''superior'']
   \<and> resolve_letter example_externals ''q'' = ''q''"
  using display_dimension_validation[of "DList [''R'', ''a'']" example_externals example_session]
        display_dimension_validation[of "DStr ''RAs''" example_externals example_session]
  by (simp add: expand_single_def resolve_letter_def example_externals_def
        example_letter2full_def lower_def lower_char_def)


declare getDimensions_traced.simps [simp del]

lemma getDimensions_traced_reentrant:
  "getDimensions_traced ext src True = ([], Inr (own_dimensions src))"
  by (subst getDimensions_traced.simps) (simp add: own_dimensions_def split: option.splits)

lemma getDimensions_traced_first:
  "getDimensions_traced ext src False =
     (case own_dimensions src of
        Some d \<Rightarrow> ([], Inr (Some d))
      | None \<Rightarrow>
          if is_local src then ([], Inr None)
          else (case from_filename ext (url src) of
                  Inl e \<Rightarrow> ([url src], Inl e)
                | Inr mysource \<Rightarrow> ([url src], Inr (own_dimensions mysource))))"
  by (subst getDimensions_traced.simps)
     (simp add: own_dimensions_def getDimensions_traced_reentrant split: option.splits sum.splits)

lemma mapM_unchanged: "list_all (\<lambda>x. f x = Inr x) xs \<Longrightarrow> mapM f xs = Inr xs"
  by (induction xs) auto

lemma reorient_source_all_in:
  assumes "getTransform ext src = Inr None"
      and "getDimensions ext src False = Inr (Some d)"
      and "compactNames (names d) = Inr inames"
      and "all_in nms inames"
  shows "reorient_source ext nms src = Inr src"
  using assms by (simp add: reorient_source_def reorientUsingDimensions_def)

lemma compactNames_xyz: "compactNames [''x'', ''y'', ''z''] = Inr ''xyz''"
  by (simp add: compactNames_def lower_char_def)

lemma compactNames_zyx: "compactNames [''z'', ''y'', ''x''] = Inr ''zyx''"
  by (simp add: compactNames_def lower_char_def)

lemma reorient_layer_unchanged:
  assumes "\<not> is_image l \<or> list_all (\<lambda>s. reorient_source ext nms s = Inr s) (source l)"
  shows "reorient_layer ext nms l = Inr l"
  using assms by (auto simp: reorient_layer_def mapM_unchanged)

text \<open>
  Claim C2, as the code has it. When every source of the image layers has no transform
  (none of its own and none from the description provider) and native dimensions
  \<open>x, y, z\<close>, \<^verbatim>\<open>display(['z', 'y', 'x'])\<close> succeeds and sets no transform at all: every
  letter of \<open>zyx\<close> occurs in \<open>xyz\<close>, so the guard of \<^verbatim>\<open>reorientUsingDimensions\<close>
  returns before a transform is built. The layers are committed unchanged, and the state
  committed last has \<^verbatim>\<open>displayDimensions\<close> equal to the stored order \<open>z, y, x\<close>.
\<close>

theorem display_zyx_on_native_xyz:
  assumes tab: "letter2full ext ''x'' = None" "letter2full ext ''y'' = None"
               "letter2full ext ''z'' = None"
      and srcs: "list_all (\<lambda>l. \<not> is_image l \<or> list_all (\<lambda>s. getTransform ext s = Inr None
                   \<and> (\<exists>d. getDimensions ext s False = Inr (Some d)
                          \<and> names d = [''x'', ''y'', ''z''])) (source l)) (layers (viewer self))"
  shows "display ext (DList [''z'', ''y'', ''x'']) self =
           (Inr (), self\<lparr>viewer := (viewer self)\<lparr>displayDimensions := Some [''z'', ''y'', ''x'']\<rparr>,
                         display_dimensions := Some [''z'', ''y'', ''x''],
                         committed := committed self @ [viewer self,
                            (viewer self)\<lparr>displayDimensions := Some [''z'', ''y'', ''x'']\<rparr>]\<rparr>)"
proof -
  have res: "map (resolve_letter ext) [''z'', ''y'', ''x''] = [''z'', ''y'', ''x'']"
    using tab by (simp add: resolve_letter_def lower_def lower_char_def)
  have st: "store_dimensions ext (DList [''z'', ''y'', ''x'']) self =
              Inr (self\<lparr>display_dimensions := Some [''z'', ''y'', ''x'']\<rparr>)"
    using res by (simp add: store_dimensions_def expand_single_def)
  have ai: "all_in ''zyx'' ''xyz''" by (simp add: all_in_def)
  have one: "reorient_source ext ''zyx'' s = Inr s"
    if "getTransform ext s = Inr None"
       "\<exists>d. getDimensions ext s False = Inr (Some d) \<and> names d = [''x'', ''y'', ''z'']" for s
  proof -
    from that(2) obtain d where d: "getDimensions ext s False = Inr (Some d)"
      "names d = [''x'', ''y'', ''z'']" by blast
    have "compactNames (names d) = Inr ''xyz''" using d(2) compactNames_xyz by simp
    then show ?thesis using reorient_source_all_in[OF that(1) d(1) _ ai] by simp
  qed
  have "reorient_layer ext ''zyx'' l = Inr l" if "l \<in> set (layers (viewer self))" for l
  proof (rule reorient_layer_unchanged)
    show "\<not> is_image l \<or> list_all (\<lambda>s. reorient_source ext ''zyx'' s = Inr s) (source l)"
      using srcs that one by (fastforce simp: list_all_iff)
  qed
  then have "list_all (\<lambda>l. reorient_layer ext ''zyx'' l = Inr l) (layers (viewer self))"
    by (simp add: list_all_iff)
  then have "mapM (reorient_layer ext ''zyx'') (layers (viewer self)) = Inr (layers (viewer self))"
    by (rule mapM_unchanged)
  then have rs: "reorient_state ext ''zyx'' (viewer self) = Inr ((), viewer self)"
    by (simp add: reorient_state_def)
  show ?thesis
    by (simp add: display_def st compactNames_opt_def compactNames_zyx txn_def rs redisplay_def)
qed

lemma display_success_steps:
  assumes "store_dimensions ext dimension self = Inr self1"
      and "compactNames_opt (display_dimensions self1) = Inr nms"
      and "reorient_state ext nms (viewer self) = Inr ((), st1)"
  shows "display ext dimension self =
           (Inr (), self1\<lparr>viewer := st1\<lparr>displayDimensions := display_dimensions self1\<rparr>,
                          committed := committed self @
                             [st1, st1\<lparr>displayDimensions := display_dimensions self1\<rparr>]\<rparr>)
         \<and> displayDimensions st1 = displayDimensions (viewer self)
         \<and> layout st1 = layout (viewer self)"
proof -
  have v: "viewer self1 = viewer self" "committed self1 = committed self"
    using assms(1) by (auto simp: store_dimensions_def Let_def split: if_splits)
  have "displayDimensions st1 = displayDimensions (viewer self) \<and> layout st1 = layout (viewer self)"
    using assms(3) by (auto simp: reorient_state_def split: sum.splits)
  moreover have "display ext dimension self =
           (Inr (), self1\<lparr>viewer := st1\<lparr>displayDimensions := display_dimensions self1\<rparr>,
                          committed := committed self @
                             [st1, st1\<lparr>displayDimensions := display_dimensions self1\<rparr>]\<rparr>)"
    using assms v by (simp add: display_def txn_def redisplay_def)
  ultimately show ?thesis by simp
qed


lemma store_dimensions_shape:
  "store_dimensions ext dimension self = Inr self1 \<Longrightarrow>
   self1 = self\<lparr>display_dimensions := display_dimensions self1\<rparr>"
  by (auto simp: store_dimensions_def Let_def split: if_splits)

text \<open>
  Claim C5, as the code has it. A call of \<^verbatim>\<open>display\<close> that raises commits nothing and
  leaves the state of the viewer as it was. A call that succeeds leaves as stored order
  \<open>display_dimensions self'\<close> the order that lines 300 to 308 store, and it commits
  twice. The first commit is the state \<open>st1\<close> that the loop over the sources makes of the
  former state when it reorients towards the compact name \<open>nms\<close> of that stored order; in
  it \<^verbatim>\<open>displayDimensions\<close> is still the old one. The second commit, made in the
  transaction of \<^verbatim>\<open>redisplay\<close>, is \<open>st1\<close> with \<^verbatim>\<open>displayDimensions\<close> set to the stored
  order, and it is the state of the viewer afterwards. No other state is committed.
\<close>

theorem display_two_commits:
  "(case display ext dimension self of
      (Inl e, self') \<Rightarrow> committed self' = committed self \<and> viewer self' = viewer self
    | (Inr u, self') \<Rightarrow>
        store_dimensions ext dimension self
          = Inr (self\<lparr>display_dimensions := display_dimensions self'\<rparr>)
        \<and> (\<exists>nms st1. compactNames_opt (display_dimensions self') = Inr nms
              \<and> reorient_state ext nms (viewer self) = Inr ((), st1)
              \<and> displayDimensions st1 = displayDimensions (viewer self)
              \<and> committed self' = committed self
                    @ [st1, st1\<lparr>displayDimensions := display_dimensions self'\<rparr>]
              \<and> viewer self' = st1\<lparr>displayDimensions := display_dimensions self'\<rparr>))"
proof (cases "store_dimensions ext dimension self")
  case (Inl e)
  then show ?thesis by (simp add: display_def)
next
  case (Inr self1)
  have v: "viewer self1 = viewer self" "committed self1 = committed self"
    using Inr by (auto simp: store_dimensions_def Let_def split: if_splits)
  have sh: "self1 = self\<lparr>display_dimensions := display_dimensions self1\<rparr>"
    using Inr by (rule store_dimensions_shape)
  show ?thesis
  proof (cases "compactNames_opt (display_dimensions self1)")
    case (Inl e)
    then show ?thesis using Inr v by (simp add: display_def)
  next
    case nms: (Inr nms)
    show ?thesis
    proof (cases "reorient_state ext nms (viewer self)")
      case (Inl e)
      then show ?thesis using Inr nms v by (simp add: display_def txn_def)
    next
      case st: (Inr r)
      obtain st1 where r: "r = ((), st1)" by (cases r) auto
      have d: "display ext dimension self =
                 (Inr (), self1\<lparr>viewer := st1\<lparr>displayDimensions := display_dimensions self1\<rparr>,
                                committed := committed self @
                                  [st1, st1\<lparr>displayDimensions := display_dimensions self1\<rparr>]\<rparr>)"
        and o: "displayDimensions st1 = displayDimensions (viewer self)"
        using display_success_steps[OF Inr nms st[unfolded r]] by simp_all
      have s: "store_dimensions ext dimension self
                 = Inr (self\<lparr>display_dimensions := display_dimensions self1\<rparr>)"
        using Inr sh by simp
      show ?thesis
        using nms st r o s by (simp add: d)
    qed
  qed
qed

theorem display_zyx_on_native_xyz_witness:
  "display example_externals (DList [''z'', ''y'', ''x'']) example_session =
     (Inr (), example_session\<lparr>viewer := example_state\<lparr>displayDimensions := Some [''z'', ''y'', ''x'']\<rparr>,
                         display_dimensions := Some [''z'', ''y'', ''x''],
                         committed := [example_state,
                            example_state\<lparr>displayDimensions := Some [''z'', ''y'', ''x'']\<rparr>]\<rparr>)"
proof -
  have t: "letter2full example_externals ''x'' = None" "letter2full example_externals ''y'' = None"
    "letter2full example_externals ''z'' = None"
    by code_simp+
  have g: "getTransform example_externals example_source = Inr None"
    by code_simp
  have d: "getDimensions example_externals example_source False
             = Inr (Some (space [''x'', ''y'', ''z'']))"
    by code_simp
  have n: "names (space [''x'', ''y'', ''z'']) = [''x'', ''y'', ''z'']"
    by (simp add: space_def)
  show ?thesis
    using display_zyx_on_native_xyz[of example_externals example_session, OF t]
    by (simp add: example_session_def example_state_def g d n)
qed

text \<open>
  Claim C2 as stated fails: on the example state, whose only source has no transform (none
  of its own and none from the provider) and native dimensions \<open>x, y, z\<close>,
  \<^verbatim>\<open>display(['z', 'y', 'x'])\<close> succeeds and the source still has no transform afterwards.
\<close>

theorem display_zyx_counterexample:
  "transform example_source = None
   \<and> getTransform example_externals example_source = Inr None
   \<and> getDimensions example_externals example_source False
       = Inr (Some (space [''x'', ''y'', ''z'']))
   \<and> fst (display example_externals (DList [''z'', ''y'', ''x'']) example_session) = Inr ()
   \<and> layers (viewer (snd (display example_externals (DList [''z'', ''y'', ''x'']) example_session)))
       = [\<lparr>name = ''brain'', is_image = True, source = [example_source], shader = None\<rparr>]"
  by code_simp

text \<open>
  Claim C5 as stated fails: on the state whose source carries a transform to the axes
  \<open>x, y, z\<close>, \<^verbatim>\<open>display('ras')\<close> commits two states, and the first of them holds the
  reoriented source (its transform now ends in right, anterior, superior) together with
  the old \<^verbatim>\<open>displayDimensions\<close> \<open>x, y, z\<close>.
\<close>

theorem display_commits_counterexample:
  "committed (snd (display example_externals (DStr ''ras'') example_transformed_session)) =
     [\<lparr>layers = [\<lparr>name = ''oriented'', is_image = True,
         source = [example_transformed_source\<lparr>transform := Some \<lparr>matrix = Some (eye 3 4),
            inputDimensions = Some (space [''x'', ''y'', ''z'']),
            outputDimensions = space [''right'', ''anterior'', ''superior'']\<rparr>\<rparr>],
         shader = None\<rparr>],
       layout = LeafView ''xy'', displayDimensions = Some [''x'', ''y'', ''z'']\<rparr>,
      \<lparr>layers = [\<lparr>name = ''oriented'', is_image = True,
         source = [example_transformed_source\<lparr>transform := Some \<lparr>matrix = Some (eye 3 4),
            inputDimensions = Some (space [''x'', ''y'', ''z'']),
            outputDimensions = space [''right'', ''anterior'', ''superior'']\<rparr>\<rparr>],
         shader = None\<rparr>],
       layout = LeafView ''xy'',
       displayDimensions = Some [''right'', ''anterior'', ''superior'']\<rparr>]
   \<and> displayDimensions (viewer example_transformed_session) = Some [''x'', ''y'', ''z'']
   \<and> transform example_transformed_source
       = Some \<lparr>matrix = Some (eye 3 4), inputDimensions = Some (space [''x'', ''y'', ''z'']),
               outputDimensions = space [''x'', ''y'', ''z'']\<rparr>"
  by code_simp

theorem display_two_commits_witness:
  "fst (display example_externals (DStr ''ras'') example_transformed_session) = Inr ()
   \<and> length (committed (snd (display example_externals (DStr ''ras'')
                 example_transformed_session)))
       = length (committed example_transformed_session) + 2
   \<and> compactNames_opt (display_dimensions (snd (display example_externals (DStr ''ras'')
                 example_transformed_session))) = Inr ''ras''"
proof -
  have d: "fst (display example_externals (DStr ''ras'') example_transformed_session) = Inr ()"
    by code_simp
  have c: "compactNames_opt (display_dimensions (snd (display example_externals (DStr ''ras'')
                 example_transformed_session))) = Inr ''ras''"
    by code_simp
  show ?thesis
    using display_two_commits[where ext = example_externals and dimension = "DStr ''ras''"
            and self = example_transformed_session] d c
    by (cases "display example_externals (DStr ''ras'') example_transformed_session") auto
qed

section \<open>Properties of the transform action\<close>

text \<open>\<open>isqrt\<close> is the integer square root.\<close>

lemma isqrt_below_sq: "isqrt_below x b * isqrt_below x b \<le> x"
  by (induction b) auto

lemma isqrt_below_max: "r \<le> b \<Longrightarrow> r * r \<le> x \<Longrightarrow> r \<le> isqrt_below x b"
proof (induction b)
  case 0
  then show ?case by simp
next
  case (Suc b)
  show ?case
  proof (cases "Suc b * Suc b \<le> x")
    case True
    then show ?thesis using Suc.prems by simp
  next
    case False
    then have "r \<noteq> Suc b" using Suc.prems by auto
    then have "r \<le> b" using Suc.prems by simp
    then show ?thesis using Suc.IH Suc.prems False by simp
  qed
qed

lemma isqrt_square: "isqrt (s * s) = s"
proof -
  have "s \<le> s * s" by (cases s) auto
  then have lo: "s \<le> isqrt (s * s)"
    unfolding isqrt_def by (rule isqrt_below_max) simp
  have "isqrt (s * s) * isqrt (s * s) \<le> s * s"
    unfolding isqrt_def by (rule isqrt_below_sq)
  then have "(isqrt (s * s))\<^sup>2 \<le> s\<^sup>2"
    by (simp add: power2_eq_square)
  then have "isqrt (s * s) \<le> s"
    by (simp only: power2_nat_le_eq_le)
  with lo show ?thesis by simp
qed

lemma isqrt_pronic: "isqrt (1 + 4 * (n * (n + 1))) div 2 = n"
proof -
  have "1 + 4 * (n * (n + 1)) = (2 * n + 1) * (2 * n + 1)" by (simp add: algebra_simps)
  then have "isqrt (1 + 4 * (n * (n + 1))) = 2 * n + 1" using isqrt_square by metis
  then show ?thesis by simp
qed

lemma pronic_not_one: "n * (n + 1) \<noteq> (1::nat)"
  by (cases n) auto

lemma unwrap_single_flat:
  "length xs \<noteq> 1 \<Longrightarrow> unwrap_single (array_of_list xs) = array_of_list xs"
  by (simp add: unwrap_single_def array_of_list_def)

lemma as_matrix_flat:
  "length xs \<noteq> 1 \<Longrightarrow>
   as_matrix ext (TArray (array_of_list xs)) mov fix = reshape_flat (array_of_list xs)"
  by (simp add: as_matrix_def unwrap_single_flat)

lemma as_matrix_single:
  "length xs = 1 \<Longrightarrow>
   as_matrix ext (TArray (array_of_list xs)) mov fix = Inr \<lparr>shape = [], flat = xs\<rparr>"
  by (simp add: as_matrix_def unwrap_single_def array_of_list_def reshape_flat_def)

lemma reshape_flat_pronic:
  assumes "n * (n + 1) = length xs"
  shows "reshape_flat (array_of_list xs) = Inr \<lparr>shape = [n, n + 1], flat = xs\<rparr>"
proof -
  have n: "isqrt (1 + 4 * length xs) div 2 = n" using isqrt_pronic[of n] unfolding assms .
  have n12: "length xs = 12 \<Longrightarrow> n = 3"
  proof -
    assume "length xs = 12"
    then have "isqrt 49 div 2 = n" using n by simp
    moreover have "isqrt 49 = 7" using isqrt_square[of 7] by simp
    ultimately show "n = 3" by simp
  qed
  have n16: "length xs \<noteq> 16"
  proof
    assume "length xs = 16"
    then have "isqrt 65 div 2 = n" using n by simp
    moreover have "isqrt 65 = 8" by code_simp
    ultimately have "n = 4" by simp
    then show False using assms \<open>length xs = 16\<close> by simp
  qed
  show ?thesis
    using assms n n12 n16
    by (auto simp: reshape_flat_def array_of_list_def reshape_def Let_def)
qed

lemma as_matrix_pronic:
  assumes "n * (n + 1) = length xs"
  shows "as_matrix ext (TArray (array_of_list xs)) mov fix
           = Inr \<lparr>shape = [n, n + 1], flat = xs\<rparr>"
proof -
  have "length xs \<noteq> 1" using assms pronic_not_one[of n] by simp
  then show ?thesis using reshape_flat_pronic[OF assms] by (simp add: as_matrix_flat)
qed

lemma as_matrix_error:
  assumes "length xs \<noteq> 1" "length xs \<noteq> 16" "\<forall>n. n * (n + 1) \<noteq> length xs"
  shows "as_matrix ext (TArray (array_of_list xs)) mov fix = Inl ValueError"
proof -
  have "length xs \<noteq> 12" using assms(3)[rule_format, of 3] by auto
  then have "reshape_flat (array_of_list xs) = Inl ValueError"
    using assms(2,3) by (auto simp: reshape_flat_def array_of_list_def reshape_def Let_def)
  then show ?thesis using assms(1) by (simp add: as_matrix_flat)
qed

text \<open>
  When the preparation of the matrix raises, the action ends with that error, unless its
  opening call \<^verbatim>\<open>display('ras')\<close> has raised already; in both cases the object is left
  as that call left it.
\<close>

lemma transform_prepare_error:
  assumes "prepare_matrix ext arg invert mov fix = Inl e"
  shows "transform_action ext arg layer_names invert mov fix self =
           (case display ext (DStr ''ras'') self of
              (Inl e', self1) \<Rightarrow> (Inl e', self1)
            | (Inr u, self1) \<Rightarrow> (Inl e, self1))"
  using assms by (simp add: transform_action_def split: prod.splits sum.splits)

text \<open>
  Claim C1, as the code has it. For a flat sequence given to the transform action, the
  array that lines 529 to 544 make of it is the sequence reshaped to 3 by 4 for length 12,
  to 4 by 4 for length 16, to 2 by 3 for length 6 and to 4 by 5 for length 20, since
  \<open>4 * 5 = 20\<close>; in general a sequence of length \<open>n * (n + 1)\<close> is reshaped to \<open>n\<close> by
  \<open>n + 1\<close>. A sequence of length 1 is replaced by its only element (line 531) and is not
  reshaped. For any other length that is neither 16 nor of the form \<open>n * (n + 1)\<close>,
  \<^verbatim>\<open>reshape\<close> raises \<^verbatim>\<open>ValueError\<close>: the preparation of the matrix fails with it, and so
  does the action once its opening call \<^verbatim>\<open>display('ras')\<close> has succeeded.
\<close>

theorem transform_flat_shapes:
  "(length xs = 12 \<longrightarrow> as_matrix ext (TArray (array_of_list xs)) mov fix
                          = Inr \<lparr>shape = [3, 4], flat = xs\<rparr>)
   \<and> (length xs = 16 \<longrightarrow> as_matrix ext (TArray (array_of_list xs)) mov fix
                          = Inr \<lparr>shape = [4, 4], flat = xs\<rparr>)
   \<and> (length xs = 6 \<longrightarrow> as_matrix ext (TArray (array_of_list xs)) mov fix
                          = Inr \<lparr>shape = [2, 3], flat = xs\<rparr>)
   \<and> (length xs = 20 \<longrightarrow> as_matrix ext (TArray (array_of_list xs)) mov fix
                          = Inr \<lparr>shape = [4, 5], flat = xs\<rparr>)
   \<and> (\<forall>n. n * (n + 1) = length xs
          \<longrightarrow> as_matrix ext (TArray (array_of_list xs)) mov fix
                = Inr \<lparr>shape = [n, n + 1], flat = xs\<rparr>)
   \<and> (length xs = 1 \<longrightarrow> as_matrix ext (TArray (array_of_list xs)) mov fix
                          = Inr \<lparr>shape = [], flat = xs\<rparr>)
   \<and> (length xs \<noteq> 1 \<and> length xs \<noteq> 16 \<and> (\<forall>n. n * (n + 1) \<noteq> length xs)
        \<longrightarrow> as_matrix ext (TArray (array_of_list xs)) mov fix = Inl ValueError
            \<and> prepare_matrix ext (TArray (array_of_list xs)) invert mov fix = Inl ValueError
            \<and> (fst (display ext (DStr ''ras'') self) = Inr ()
                 \<longrightarrow> fst (transform_action ext (TArray (array_of_list xs)) layer_names invert
                            mov fix self) = Inl ValueError))"
proof -
  have a: "as_matrix ext (TArray (array_of_list xs)) mov fix
             = Inr \<lparr>shape = [4, 4], flat = xs\<rparr>" if l: "length xs = 16"
  proof -
    have "reshape_flat (array_of_list xs) = Inr \<lparr>shape = [4, 4], flat = xs\<rparr>"
      using l by (simp add: reshape_flat_def array_of_list_def reshape_def)
    moreover have "length xs \<noteq> 1" using l by simp
    ultimately show ?thesis using as_matrix_flat[of xs ext mov "fix"] by simp
  qed
  have b: "length xs = 12 \<Longrightarrow> as_matrix ext (TArray (array_of_list xs)) mov fix
                                 = Inr \<lparr>shape = [3, 4], flat = xs\<rparr>"
    using as_matrix_pronic[of 3 xs ext mov "fix"] by simp
  have c: "length xs = 6 \<Longrightarrow> as_matrix ext (TArray (array_of_list xs)) mov fix
                                = Inr \<lparr>shape = [2, 3], flat = xs\<rparr>"
    using as_matrix_pronic[of 2 xs ext mov "fix"] by simp
  have d: "length xs = 20 \<Longrightarrow> as_matrix ext (TArray (array_of_list xs)) mov fix
                                 = Inr \<lparr>shape = [4, 5], flat = xs\<rparr>"
    using as_matrix_pronic[of 4 xs ext mov "fix"] by simp
  have e: "\<forall>n. n * (n + 1) = length xs
          \<longrightarrow> as_matrix ext (TArray (array_of_list xs)) mov fix
                = Inr \<lparr>shape = [n, n + 1], flat = xs\<rparr>"
    using as_matrix_pronic by blast
  have s: "length xs = 1 \<Longrightarrow> as_matrix ext (TArray (array_of_list xs)) mov fix
                                = Inr \<lparr>shape = [], flat = xs\<rparr>"
    by (rule as_matrix_single)
  have f: "as_matrix ext (TArray (array_of_list xs)) mov fix = Inl ValueError
            \<and> prepare_matrix ext (TArray (array_of_list xs)) invert mov fix = Inl ValueError
            \<and> (fst (display ext (DStr ''ras'') self) = Inr ()
                 \<longrightarrow> fst (transform_action ext (TArray (array_of_list xs)) layer_names invert
                            mov fix self) = Inl ValueError)"
    if h: "length xs \<noteq> 1 \<and> length xs \<noteq> 16 \<and> (\<forall>n. n * (n + 1) \<noteq> length xs)"
  proof -
    have am: "as_matrix ext (TArray (array_of_list xs)) mov fix = Inl ValueError"
      using h as_matrix_error by blast
    then have pm: "prepare_matrix ext (TArray (array_of_list xs)) invert mov fix = Inl ValueError"
      by (simp add: prepare_matrix_def)
    have "fst (transform_action ext (TArray (array_of_list xs)) layer_names invert mov fix self)
            = Inl ValueError"
      if "fst (display ext (DStr ''ras'') self) = Inr ()"
      using that transform_prepare_error[OF pm, of layer_names self]
      by (cases "display ext (DStr ''ras'') self") auto
    with am pm show ?thesis by blast
  qed
  show ?thesis
    using a b c d e s f by blast
qed

theorem transform_flat_shapes_witness:
  "as_matrix example_externals (TArray (array_of_list [1, 0, 0, 5, 0, 1, 0, 6, 0, 0, 1, 7]))
       None None
     = Inr \<lparr>shape = [3, 4], flat = [1, 0, 0, 5, 0, 1, 0, 6, 0, 0, 1, 7]\<rparr>
   \<and> as_matrix example_externals (TArray (array_of_list [1, 0, 5, 0, 1, 6])) None None
     = Inr \<lparr>shape = [2, 3], flat = [1, 0, 5, 0, 1, 6]\<rparr>
   \<and> as_matrix example_externals (TArray (array_of_list [5])) None None
     = Inr \<lparr>shape = [], flat = [5]\<rparr>
   \<and> prepare_matrix example_externals (TArray (array_of_list [1, 2, 3, 4, 5, 6, 7])) False
       None None = Inl ValueError
   \<and> fst (transform_action example_externals (TArray (array_of_list [1, 2, 3, 4, 5, 6, 7])) []
            False None None example_session) = Inl ValueError"
proof -
  have no7: "\<forall>n::nat. n * (n + 1) \<noteq> length [1, 2, 3, 4, 5, 6, 7 :: rat]"
  proof
    fix n :: nat
    show "n * (n + 1) \<noteq> length [1, 2, 3, 4, 5, 6, 7 :: rat]"
    proof (cases "n \<le> 2")
      case True
      then have "n = 0 \<or> n = 1 \<or> n = 2" by auto
      then show ?thesis by auto
    next
      case False
      then have "3 \<le> n" by simp
      then have "3 * 4 \<le> n * (n + 1)" by (intro mult_le_mono) auto
      then show ?thesis by simp
    qed
  qed
  have l12: "length [1, 0, 0, 5, 0, 1, 0, 6, 0, 0, 1, 7 :: rat] = 12" by simp
  have l6: "length [1, 0, 5, 0, 1, 6 :: rat] = 6" by simp
  have l1: "length [5 :: rat] = 1" by simp
  have l7: "length [1, 2, 3, 4, 5, 6, 7 :: rat] \<noteq> 16"
    "length [1, 2, 3, 4, 5, 6, 7 :: rat] \<noteq> 1" by simp_all
  have d: "fst (display example_externals (DStr ''ras'') example_session) = Inr ()"
    by code_simp
  have w12: "as_matrix example_externals
               (TArray (array_of_list [1, 0, 0, 5, 0, 1, 0, 6, 0, 0, 1, 7])) None None
             = Inr \<lparr>shape = [3, 4], flat = [1, 0, 0, 5, 0, 1, 0, 6, 0, 0, 1, 7]\<rparr>"
    using transform_flat_shapes[of "[1, 0, 0, 5, 0, 1, 0, 6, 0, 0, 1, 7]" example_externals
            None None False example_session "[]"] l12
    by blast
  have w6: "as_matrix example_externals (TArray (array_of_list [1, 0, 5, 0, 1, 6])) None None
             = Inr \<lparr>shape = [2, 3], flat = [1, 0, 5, 0, 1, 6]\<rparr>"
    using transform_flat_shapes[of "[1, 0, 5, 0, 1, 6]" example_externals
            None None False example_session "[]"] l6
    by blast
  have w1: "as_matrix example_externals (TArray (array_of_list [5])) None None
             = Inr \<lparr>shape = [], flat = [5]\<rparr>"
    using transform_flat_shapes[of "[5]" example_externals
            None None False example_session "[]"] l1
    by blast
  have w7: "prepare_matrix example_externals (TArray (array_of_list [1, 2, 3, 4, 5, 6, 7])) False
              None None = Inl ValueError
            \<and> fst (transform_action example_externals
                     (TArray (array_of_list [1, 2, 3, 4, 5, 6, 7])) []
                     False None None example_session) = Inl ValueError"
    using transform_flat_shapes[of "[1, 2, 3, 4, 5, 6, 7]" example_externals
            None None False example_session "[]"] l7 no7 d
    by blast
  show ?thesis
    using w12 w6 w1 w7 by (intro conjI) (erule conjunct1 conjunct2 | assumption)+
qed

text \<open>
  Claim C1 as stated fails at length 20: the sequence of twenty zeros is reshaped to 4 by 5,
  and the whole preparation of the matrix succeeds with that shape.
\<close>

theorem reshape_flat_20_counterexample:
  "as_matrix example_externals (TArray (array_of_list (replicate 20 0))) None None
     = Inr \<lparr>shape = [4, 5], flat = replicate 20 0\<rparr>
   \<and> prepare_matrix example_externals (TArray (array_of_list (replicate 20 0))) False None None
       = Inr \<lparr>shape = [4, 5], flat = replicate 20 0\<rparr>"
  by code_simp








section \<open>Properties of the resolution of dimensions\<close>

lemma getDimensions_traced_bound:
  "length (fst (getDimensions_traced ext src reentrant)) \<le> 1"
  by (cases reentrant)
     (simp_all add: getDimensions_traced_reentrant getDimensions_traced_first
        split: option.splits sum.splits)

lemma getDimensions_unknown:
  assumes "own_dimensions src = None"
      and "reentrant \<or> is_local src
           \<or> (\<exists>d. from_filename ext (url src) = Inr d \<and> own_dimensions d = None)"
  shows "getDimensions ext src reentrant = Inr None"
  using assms
  by (cases reentrant)
     (auto simp: getDimensions_def getDimensions_traced_reentrant getDimensions_traced_first)

lemma skip_unknown:
  assumes "getDimensions ext src False = Inr None" "getTransform ext src = Inr None"
  shows "reorient_source ext nms src = Inr src" "apply_source ext T src = Inr src"
  using assms
  by (simp_all add: reorient_source_def reorientUsingDimensions_def apply_source_def
        applyTransform_def)

text \<open>
  The resolution itself: \<^verbatim>\<open>getDimensions\<close> is a total function (its recursion was shown
  to terminate), it asks the description provider at most once, and not at all in the
  reentrant call. When neither the \<^verbatim>\<open>inputDimensions\<close> of a transform of the source nor its
  own dimensions are there, and the call is reentrant, or the source is a local volume, or
  the description that the provider returns has neither, the result is \<^verbatim>\<open>None\<close> and no
  exception. A source that has no transform either is skipped by the callers.
\<close>

lemma getDimensions_bounded_unknown:
  "length (fst (getDimensions_traced ext src reentrant)) \<le> 1
   \<and> (reentrant \<longrightarrow> fst (getDimensions_traced ext src reentrant) = [])
   \<and> (own_dimensions src = None
        \<and> (reentrant \<or> is_local src
            \<or> (\<exists>d. from_filename ext (url src) = Inr d \<and> own_dimensions d = None))
      \<longrightarrow> getDimensions ext src reentrant = Inr None)
   \<and> (getDimensions ext src False = Inr None \<and> getTransform ext src = Inr None
      \<longrightarrow> reorient_source ext nms src = Inr src \<and> apply_source ext T src = Inr src)"
  using getDimensions_traced_bound[of ext src reentrant]
        getDimensions_unknown[of src reentrant ext]
        skip_unknown(1)[of ext src nms] skip_unknown(2)[of ext src T]
  by (auto simp: getDimensions_traced_reentrant)

text \<open>
  Claim C7 does not hold of the code. For a source that has a transform and whose
  dimensions resolve to \<^verbatim>\<open>None\<close> (the transform has no \<^verbatim>\<open>inputDimensions\<close>, and neither
  the source nor the provider knows more), the callers do not skip the source:
  \<^verbatim>\<open>reorientUsingTransform\<close> and \<^verbatim>\<open>composeTransform\<close> lack the test \<^verbatim>\<open>if not idims\<close> of
  their siblings and hand a transform without input dimensions to \<^verbatim>\<open>compose\<close>. What
  becomes of the source is what \<^verbatim>\<open>compose\<close> makes of that transform: when it raises, the
  loop over the sources raises and the whole command fails; when it returns, the transform
  of the source is replaced. (In \<^verbatim>\<open>display\<close> this needs display letters that are not all
  among the output letters of the transform, and an entry of the table for them.)
\<close>

theorem unknown_dimensions_not_skipped:
  assumes "getTransform ext src = Inr (Some t)"
      and "getDimensions ext src False = Inr None"
      and "compactNames (names (outputDimensions t)) = Inr onames"
      and "\<not> all_in nms onames"
      and "neurotransforms ext (onames, nms) = Some T"
  shows "reorient_source ext nms src =
           (case compose ext T \<lparr>matrix = Some (case matrix t of None \<Rightarrow> eye 4 4 | Some m \<Rightarrow> m),
                                inputDimensions = None,
                                outputDimensions = outputDimensions t\<rparr> of
              Inl e \<Rightarrow> Inl e
            | Inr c \<Rightarrow> Inr (src\<lparr>transform := Some c\<rparr>))
         \<and> apply_source ext T' src =
           (case compose ext T' \<lparr>matrix = Some (case matrix t of None \<Rightarrow> eye 4 4 | Some m \<Rightarrow> m),
                                 inputDimensions = None,
                                 outputDimensions = outputDimensions t\<rparr> of
              Inl e \<Rightarrow> Inl e
            | Inr c \<Rightarrow> Inr (src\<lparr>transform := Some c\<rparr>))"
  using assms
  by (simp add: reorient_source_def reorientUsingTransform_def apply_source_def
        composeTransform_def Let_def split: sum.splits)

text \<open>
  On the example source whose transform has no input dimensions, the resolution asks
  the provider once and returns \<^verbatim>\<open>None\<close>. With a \<^verbatim>\<open>compose\<close> that raises on such a
  transform, \<^verbatim>\<open>display('ras')\<close> fails as a whole and commits nothing, though the other
  source of the state could be reoriented; with \<open>compose_spec\<close> the transform of the
  source is replaced.
\<close>

theorem unknown_dimensions_not_skipped_witness:
  "getDimensions_traced example_externals example_remote_source False
     = ([''nifti://volume.nii''], Inr None)
   \<and> reorient_source example_strict_externals ''ras'' example_remote_source
     = Inl AttributeError
   \<and> display example_strict_externals (DStr ''ras'') example_remote_session
     = (Inl AttributeError,
        example_remote_session\<lparr>display_dimensions := Some [''right'', ''anterior'', ''superior'']\<rparr>)
   \<and> reorient_source example_externals ''ras'' example_remote_source
     = Inr (example_remote_source\<lparr>transform := Some \<lparr>matrix = Some (eye 3 4),
              inputDimensions = None,
              outputDimensions = space [''right'', ''anterior'', ''superior'']\<rparr>\<rparr>)"
proof -
  have tr: "getDimensions_traced example_externals example_remote_source False
     = ([''nifti://volume.nii''], Inr None)"
    by code_simp
  have g: "getTransform example_strict_externals example_remote_source
             = Inr (Some \<lparr>matrix = None, inputDimensions = None,
                          outputDimensions = space [''x'', ''y'', ''z'']\<rparr>)"
          "getTransform example_externals example_remote_source
             = Inr (Some \<lparr>matrix = None, inputDimensions = None,
                          outputDimensions = space [''x'', ''y'', ''z'']\<rparr>)"
    by code_simp+
  have d: "getDimensions example_strict_externals example_remote_source False = Inr None"
          "getDimensions example_externals example_remote_source False = Inr None"
    by code_simp+
  have c: "compactNames (names (outputDimensions \<lparr>matrix = None, inputDimensions = None,
                          outputDimensions = space [''x'', ''y'', ''z'']\<rparr>)) = Inr ''xyz''"
    by code_simp
  have a: "\<not> all_in ''ras'' ''xyz''"
    by code_simp
  have n: "neurotransforms example_strict_externals (''xyz'', ''ras'')
             = Some \<lparr>matrix = Some (eye 3 4), inputDimensions = Some (space [''x'', ''y'', ''z'']),
                     outputDimensions = space [''right'', ''anterior'', ''superior'']\<rparr>"
          "neurotransforms example_externals (''xyz'', ''ras'')
             = Some \<lparr>matrix = Some (eye 3 4), inputDimensions = Some (space [''x'', ''y'', ''z'']),
                     outputDimensions = space [''right'', ''anterior'', ''superior'']\<rparr>"
    by code_simp+
  have k1: "compose example_strict_externals
              \<lparr>matrix = Some (eye 3 4), inputDimensions = Some (space [''x'', ''y'', ''z'']),
               outputDimensions = space [''right'', ''anterior'', ''superior'']\<rparr>
              \<lparr>matrix = Some (eye 4 4), inputDimensions = None,
               outputDimensions = space [''x'', ''y'', ''z'']\<rparr> = Inl AttributeError"
    by code_simp
  have k2: "compose example_externals
              \<lparr>matrix = Some (eye 3 4), inputDimensions = Some (space [''x'', ''y'', ''z'']),
               outputDimensions = space [''right'', ''anterior'', ''superior'']\<rparr>
              \<lparr>matrix = Some (eye 4 4), inputDimensions = None,
               outputDimensions = space [''x'', ''y'', ''z'']\<rparr>
            = Inr \<lparr>matrix = Some (eye 3 4), inputDimensions = None,
                   outputDimensions = space [''right'', ''anterior'', ''superior'']\<rparr>"
    by code_simp
  have w: "display example_strict_externals (DStr ''ras'') example_remote_session
     = (Inl AttributeError,
        example_remote_session\<lparr>display_dimensions := Some [''right'', ''anterior'', ''superior'']\<rparr>)"
    by code_simp
  have r1: "reorient_source example_strict_externals ''ras'' example_remote_source
              = Inl AttributeError"
    using unknown_dimensions_not_skipped[OF g(1) d(1) c a n(1)] by (simp add: k1)
  have r2: "reorient_source example_externals ''ras'' example_remote_source
     = Inr (example_remote_source\<lparr>transform := Some \<lparr>matrix = Some (eye 3 4),
              inputDimensions = None,
              outputDimensions = space [''right'', ''anterior'', ''superior'']\<rparr>\<rparr>)"
    using unknown_dimensions_not_skipped[OF g(2) d(2) c a n(2)] by (simp add: k2)
  show ?thesis using tr r1 r2 w by simp
qed

section \<open>Properties of the unload, load, state and layout actions\<close>

lemma del_layers_all: "del_layers missing (map name ls) ls = Inr []"
  by (induction ls) (simp_all add: del_layer_def)

text \<open>
  Claim C9. Without layer names, \<^verbatim>\<open>unload\<close> succeeds and removes every layer: the state
  committed last, which is the state of the viewer afterwards, has an empty list of layers,
  and nothing else of it has changed.
\<close>

theorem unload_all:
  assumes "ensure_list layer = []"
  shows "unload missing layer self =
           (Inr (), self\<lparr>viewer := (viewer self)\<lparr>layers := []\<rparr>,
                         committed := committed self @ [viewer self, (viewer self)\<lparr>layers := []\<rparr>]\<rparr>)
         \<and> layers (viewer (snd (unload missing layer self))) = []"
  using assms by (simp add: unload_def txn_def del_layers_all)

theorem unload_all_witness:
  "ensure_list DNone = []
   \<and> fst (unload (\<lambda>ls. Inl KeyError) DNone example_session) = Inr ()
   \<and> layers (viewer (snd (unload (\<lambda>ls. Inl KeyError) DNone example_session))) = []
   \<and> layers (viewer example_session) \<noteq> []"
  using unload_all[of DNone "\<lambda>ls. Inl KeyError" example_session]
  by (simp add: example_session_def example_state_def)

text \<open>
  Claim C10. With a name (a non-empty one, which is what \<^verbatim>\<open>if name\<close> tests) and more than
  one file name, \<^verbatim>\<open>load\<close> raises \<^verbatim>\<open>ValueError\<close> and leaves the whole object as it was:
  no layer is added, nothing is committed, and the stored display order is untouched.
\<close>

theorem load_name_with_several_files:
  assumes "n \<noteq> []" "length (ensure_list filename) > 1"
  shows "load ext h filename (Some n) transform_given self = (Inl ValueError, self)"
  using assms by (simp add: load_def)

theorem load_name_with_several_files_witness:
  "''both'' \<noteq> [] \<and> length (ensure_list (DList [''a.nii'', ''b.nii''])) > 1
   \<and> load example_externals example_host (DList [''a.nii'', ''b.nii'']) (Some ''both'') False
        example_session = (Inl ValueError, example_session)"
  using load_name_with_several_files[of "''both''" "DList [''a.nii'', ''b.nii'']"
          example_externals example_host False example_session]
  by simp

text \<open>
  Claim C8 does not hold of the code. With the \<^verbatim>\<open>url\<close> flag set, \<^verbatim>\<open>state\<close> never decodes
  the fragment of the URL given in \<^verbatim>\<open>load\<close>: either \<^verbatim>\<open>load\<close> is an existing path or starts
  with a remote protocol, and then it is opened and read as a JSON file, or the action
  raises \<^verbatim>\<open>TypeError\<close> (from \<^verbatim>\<open>'://' in url\<close>, where \<^verbatim>\<open>url\<close> is the flag) and leaves the
  object as it was.
\<close>

theorem state_url_flag_never_decodes:
  assumes "l \<noteq> []"
  shows "(\<not> path_exists h l \<and> \<not> list_ex (startswith l) (remote_protocols h)
            \<longrightarrow> state_action h (Some l) save (UFlag True) prnt self = (Inl TypeError, self))
       \<and> (path_exists h l \<or> list_ex (startswith l) (remote_protocols h)
            \<longrightarrow> state_load h l (UFlag True) = read_json h l)"
  using assms by (simp add: state_action_def state_load_def)

theorem state_url_flag_never_decodes_witness:
  "state_action example_host (Some ''neuroglancer://demo/#!%7B%7D'') None (UFlag True) True
     example_session = (Inl TypeError, example_session)
   \<and> state_load example_host ''https://neuroglancer-demo.appspot.com/#!%7B%7D'' (UFlag True)
     = Inl OSError"
  using state_url_flag_never_decodes[of "''neuroglancer://demo/#!%7B%7D''" example_host None True
          example_session]
        state_url_flag_never_decodes[of "''https://neuroglancer-demo.appspot.com/#!%7B%7D''"
          example_host None True example_session]
  by (simp add: example_host_def startswith_def)

lemma walk_single_layout:
  "\<not> (\<exists>t cs. n = StackLayout t cs) \<Longrightarrow> walk (Some n) (i # indices) parent = Inl AttributeError"
  by (cases n) simp_all

lemma build_single:
  "build_layout [L] None layer flex =
     Some (if layer \<noteq> [] then LayerGroupViewer layer (LeafView L) flex else LeafView L)"
  by (simp add: build_layout_def nonempty_def)

text \<open>
  Claim C3 does not hold of the code. Appending one layout at a non-empty path raises
  \<^verbatim>\<open>AttributeError\<close> and leaves the object as it was, whatever the layout tree of the state
  is: the path is looked up in the children of the layout being appended, which has none,
  and not walked from the root of the existing tree.
\<close>

theorem layout_append_at_path_fails:
  "layout_action (DList [L]) None layer flex (Some (i # indices)) None None self
     = (Inl AttributeError, self)"
proof -
  have w: "walk (build_layout [L] None (ensure_list layer) flex) (i # indices) (layout (viewer self))
             = Inl AttributeError"
    unfolding build_single by (rule walk_single_layout) auto
  show ?thesis
    by (simp add: layout_action_def nonempty_def take_position_def nonzero_def txn_def
          layout_edit_def Let_def w del: walk.simps)
qed

text \<open>
  On the example whose root is a row of two stacks, the path \<open>[0]\<close> walked from the root
  reaches a stack, to which a child could be appended; the action fails all the same. On
  the example whose root is a single panel it fails too.
\<close>

theorem layout_append_at_path_fails_witness:
  "layout_action (DList [''3d'']) None (DList [''brain'']) 1 (Some [0]) None None
     example_nested_session = (Inl AttributeError, example_nested_session)
   \<and> walk_from_root [0] (layout (viewer example_nested_session))
     = Inr (StackLayout ''column'' [LayerGroupViewer [''brain''] (LeafView ''xy'') 1])
   \<and> layout_action (DList [''3d'']) None DNone 1 (Some [0]) None None example_session
     = (Inl AttributeError, example_session)
   \<and> layout (viewer example_session) = LeafView ''xy''"
  using layout_append_at_path_fails[of "''3d''" "DList [''brain'']" 1 0 "[]" example_nested_session]
        layout_append_at_path_fails[of "''3d''" DNone 1 0 "[]" example_session]
  by (simp add: example_nested_session_def example_nested_layout_def example_session_def
        example_state_def py_index_def py_norm_def)

end
